theory Spec2Isabelle
  imports Complex_Main
begin

section \<open>Scope\<close>

text \<open>
  A shallow embedding of \<^verbatim>\<open>luastatus/luastatus.c\<close> and of \<^verbatim>\<open>init\<close> of
  \<^verbatim>\<open>plugins/udev/udev.c\<close>. The global variables of \<^verbatim>\<open>luastatus.c\<close> are the fields of
  one state that each function takes and returns. Everything outside the two files is a
  parameter: the dynamic linker, the Lua scripts, the plugins and the bar driver. Three
  things are left out throughout: log messages; the failure of an allocation
  (\<^verbatim>\<open>ls_xmalloc\<close>, \<^verbatim>\<open>ls_xstrdup\<close> and the vectors panic on it); and the failure of a
  pthread call (\<^verbatim>\<open>LS_PTH_CHECK\<close> panics on it). Locking is recorded as a step, not
  as a wait.
\<close>

section \<open>Termination of the process\<close>

text \<open>
  The ways in which a function of \<^verbatim>\<open>luastatus.c\<close> can end the process instead of
  returning: \<^verbatim>\<open>abort()\<close> (also a failed \<^verbatim>\<open>assert\<close>), \<^verbatim>\<open>_exit(code)\<close> from
  \<^verbatim>\<open>fatal_error_reported\<close>, \<^verbatim>\<open>_exit(code)\<close> from the \<^verbatim>\<open>os.exit\<close> replacement
  \<^verbatim>\<open>l_os_exit\<close>, a \<^verbatim>\<open>return\<close> from \<^verbatim>\<open>main\<close>, and the endless \<^verbatim>\<open>pause()\<close> loop.
  \<open>Undefined\<close> stands for what C leaves undefined: the use of a \<^verbatim>\<open>NULL\<close> interpreter
  or of a widget outside the array.
\<close>

datatype halt =
    Aborted
  | Fatal_exit int
  | Lua_os_exit int
  | Main_returned int
  | Hangs
  | Undefined

definition EXIT_SUCCESS :: int where
  "EXIT_SUCCESS = 0"

definition EXIT_FAILURE :: int where
  "EXIT_FAILURE = 1"

section \<open>Log levels\<close>

text \<open>
  Modelled from the spec: the enumeration of log levels is declared in
  \<^verbatim>\<open>include/common.h\<close>, which is not among the sources at hand. The spec lists the
  severity levels "most to least severe: fatal, error, warning, info, verbose, debug,
  trace"; they are numbered in that order from 0, and \<^verbatim>\<open>LUASTATUS_LOG_LAST\<close> is the
  enumerator after the last level.
\<close>

definition LUASTATUS_LOG_FATAL :: nat where "LUASTATUS_LOG_FATAL = 0"
definition LUASTATUS_LOG_ERR :: nat where "LUASTATUS_LOG_ERR = 1"
definition LUASTATUS_LOG_WARN :: nat where "LUASTATUS_LOG_WARN = 2"
definition LUASTATUS_LOG_INFO :: nat where "LUASTATUS_LOG_INFO = 3"
definition LUASTATUS_LOG_VERBOSE :: nat where "LUASTATUS_LOG_VERBOSE = 4"
definition LUASTATUS_LOG_DEBUG :: nat where "LUASTATUS_LOG_DEBUG = 5"
definition LUASTATUS_LOG_TRACE :: nat where "LUASTATUS_LOG_TRACE = 6"
definition LUASTATUS_LOG_LAST :: nat where "LUASTATUS_LOG_LAST = 7"

definition loglevels :: "nat list" where
  "loglevels = [LUASTATUS_LOG_FATAL, LUASTATUS_LOG_ERR, LUASTATUS_LOG_WARN,
     LUASTATUS_LOG_INFO, LUASTATUS_LOG_VERBOSE, LUASTATUS_LOG_DEBUG, LUASTATUS_LOG_TRACE]"

text \<open>
  The array \<^verbatim>\<open>loglevel_names\<close> is written with designated initialisers, so its size is
  one more than the largest index named and an index that is not named holds \<^verbatim>\<open>NULL\<close>
  (\<open>None\<close>). It is built here the same way: from the (index, name) pairs of the source.
\<close>

definition loglevel_names_init :: "(nat \<times> string) list" where
  "loglevel_names_init =
    [(LUASTATUS_LOG_FATAL, ''fatal''),
     (LUASTATUS_LOG_ERR, ''error''),
     (LUASTATUS_LOG_WARN, ''warning''),
     (LUASTATUS_LOG_INFO, ''info''),
     (LUASTATUS_LOG_VERBOSE, ''verbose''),
     (LUASTATUS_LOG_DEBUG, ''debug''),
     (LUASTATUS_LOG_TRACE, ''trace'')]"

definition designated :: "(nat \<times> 'a) list \<Rightarrow> 'a option list" where
  "designated ps =
    map (\<lambda>i. map_of (rev ps) i) [0 ..< (if ps = [] then 0 else Suc (Max (set (map fst ps))))]"

definition loglevel_names :: "string option list" where
  "loglevel_names = designated loglevel_names_init"

text \<open>
  \<^verbatim>\<open>loglevel_fromstr\<close>: the \<^verbatim>\<open>for\<close> loop over the indices of the array, from index
  \<open>i\<close> on. A hole in the array fails the assertion; \<^verbatim>\<open>strcmp(...) == 0\<close> is equality
  of the two zero-terminated strings.
\<close>

function loglevel_fromstr_from :: "nat \<Rightarrow> string \<Rightarrow> halt + nat" where
  "loglevel_fromstr_from i str =
    (if i < length loglevel_names then
       (case loglevel_names ! i of
          None \<Rightarrow> Inl Aborted
        | Some name \<Rightarrow>
            if str = name then Inr i else loglevel_fromstr_from (Suc i) str)
     else Inr LUASTATUS_LOG_LAST)"
  by pat_completeness auto
termination
  by (relation "measure (\<lambda>(i, str). length loglevel_names - i)") auto

definition loglevel_fromstr :: "string \<Rightarrow> halt + nat" where
  "loglevel_fromstr str = loglevel_fromstr_from 0 str"

section \<open>The string-to-pointer map\<close>

text \<open>
  \<^verbatim>\<open>MapEntry\<close> is a \<^verbatim>\<open>void *value\<close> followed by the key. Pointers are addresses
  (\<open>nat\<close>), \<^verbatim>\<open>NULL\<close> is 0. The global \<^verbatim>\<open>map\<close> holds a vector of pointers to entries,
  each entry allocated on its own by \<^verbatim>\<open>ls_xmalloc\<close>; the memory holding the entries is
  \<open>mem\<close>, and \<open>brk\<close> is the allocator's next fresh address. As \<^verbatim>\<open>value\<close> is the first
  member of the struct, the pointer \<^verbatim>\<open>&e->value\<close> that \<^verbatim>\<open>map_get\<close> returns is the
  address of the entry.
\<close>

definition NULL :: nat where
  "NULL = 0"

record MapEntry =
  val :: nat
  key :: string

record map_state =
  entries :: "nat list"
  mem :: "nat \<Rightarrow> MapEntry"
  brk :: nat
  frozen :: bool

definition map_init :: map_state where
  "map_init = \<lparr>entries = [], mem = (\<lambda>_. \<lparr>val = NULL, key = []\<rparr>), brk = 1, frozen = False\<rparr>"

text \<open>The search loop of \<^verbatim>\<open>map_get\<close> over the entries that are left.\<close>

fun map_find :: "(nat \<Rightarrow> MapEntry) \<Rightarrow> string \<Rightarrow> nat list \<Rightarrow> nat option" where
  "map_find m k [] = None"
| "map_find m k (e # es) = (if k = key (m e) then Some e else map_find m k es)"

definition ls_xmalloc :: "map_state \<Rightarrow> nat \<times> map_state" where
  "ls_xmalloc s = (brk s, s\<lparr>brk := Suc (brk s)\<rparr>)"

definition map_get :: "map_state \<Rightarrow> string \<Rightarrow> halt + (nat \<times> map_state)" where
  "map_get s k =
    (if frozen s then Inl Aborted
     else case map_find (mem s) k (entries s) of
       Some e \<Rightarrow> Inr (e, s)
     | None \<Rightarrow>
         (let (e, s1) = ls_xmalloc s;
              s2 = s1\<lparr>mem := (mem s1)(e := \<lparr>val = NULL, key = k\<rparr>)\<rparr>
          in Inr (e, s2\<lparr>entries := entries s2 @ [e]\<rparr>)))"

text \<open>
  What the callers of \<^verbatim>\<open>map_get\<close> do between two calls: call it again with some key, or
  write a pointer through a value slot they were given (\<^verbatim>\<open>*p = v\<close>). \<^verbatim>\<open>main\<close>
  freezes the map with \<^verbatim>\<open>map.frozen = true\<close>.
\<close>

datatype map_op = Op_get string | Op_write nat nat

definition map_write :: "map_state \<Rightarrow> nat \<Rightarrow> nat \<Rightarrow> map_state" where
  "map_write s p v = s\<lparr>mem := (mem s)(p := (mem s p)\<lparr>val := v\<rparr>)\<rparr>"

definition map_freeze :: "map_state \<Rightarrow> map_state" where
  "map_freeze s = s\<lparr>frozen := True\<rparr>"

fun map_run :: "map_state \<Rightarrow> map_op list \<Rightarrow> halt + map_state" where
  "map_run s [] = Inr s"
| "map_run s (Op_get k # ops) =
    (case map_get s k of Inl h \<Rightarrow> Inl h | Inr (p, s') \<Rightarrow> map_run s' ops)"
| "map_run s (Op_write p v # ops) = map_run (map_write s p v) ops"

definition map_keys :: "map_state \<Rightarrow> string list" where
  "map_keys s = map (\<lambda>e. key (mem s e)) (entries s)"

definition map_wf :: "map_state \<Rightarrow> bool" where
  "map_wf s = (list_all (\<lambda>e. e < brk s) (entries s) \<and> distinct (entries s))"

text \<open>
  The invariant of the map while it is not frozen: every entry was handed out by the
  allocator, no entry is in the vector twice, and no two entries have the same key.
\<close>

definition map_inv :: "map_state \<Rightarrow> bool" where
  "map_inv s = (map_wf s \<and> distinct (map_keys s) \<and> \<not> frozen s)"

section \<open>The Lua interpreter, as far as the host uses it\<close>

text \<open>
  The Lua engine is an external library. A \<^verbatim>\<open>lua_Number\<close> is a double: a finite
  value, an infinity or a NaN. Values are kept with the detail the host looks at: the
  type of a value, the text of a string, the fields of a table (the tables the host
  reads have no metatable). Finalizers enter where an interpreter is closed.
\<close>

datatype lua_Number = Finite real | PlusInf | MinusInf | NaN

datatype lua_value =
    LNil
  | LBool bool
  | LNum lua_Number
  | LStr string
  | LTable "(string \<times> lua_value) list"
  | LFunction nat
  | LCFunction string
  | LUserdata nat

datatype lua_type =
    LUA_TNIL | LUA_TBOOLEAN | LUA_TNUMBER | LUA_TSTRING | LUA_TTABLE | LUA_TFUNCTION
  | LUA_TUSERDATA

fun lua_type_of :: "lua_value \<Rightarrow> lua_type" where
  "lua_type_of LNil = LUA_TNIL"
| "lua_type_of (LBool b) = LUA_TBOOLEAN"
| "lua_type_of (LNum n) = LUA_TNUMBER"
| "lua_type_of (LStr s) = LUA_TSTRING"
| "lua_type_of (LTable t) = LUA_TTABLE"
| "lua_type_of (LFunction f) = LUA_TFUNCTION"
| "lua_type_of (LCFunction f) = LUA_TFUNCTION"
| "lua_type_of (LUserdata u) = LUA_TUSERDATA"

text \<open>
  The error codes of \<^verbatim>\<open>lua_pcall\<close> and the \<^verbatim>\<open>luaL_load*\<close> functions; the status 0
  (success) is \<open>None\<close> of \<open>lua_error option\<close>.
\<close>

datatype lua_error =
    LUA_ERRRUN | LUA_ERRSYNTAX | LUA_ERRMEM | LUA_ERRFILE | LUA_ERRERR | LUA_ERRGCMM
  | LUA_ERR_unknown int

text \<open>
  An interpreter instance: its stack (index 1 is the head of the list, the top is the
  last element) and the references \<^verbatim>\<open>luaL_ref\<close> made in its registry.
\<close>

record lua_State =
  stack :: "lua_value list"
  registry :: "int \<Rightarrow> lua_value"
  next_ref :: int

definition LUA_REFNIL :: int where
  "LUA_REFNIL = - 1"

definition lua_gettop :: "lua_State \<Rightarrow> nat" where
  "lua_gettop ls = length (stack ls)"

definition lua_push :: "lua_State \<Rightarrow> lua_value \<Rightarrow> lua_State" where
  "lua_push ls v = ls\<lparr>stack := stack ls @ [v]\<rparr>"

definition lua_settop :: "lua_State \<Rightarrow> nat \<Rightarrow> lua_State" where
  "lua_settop ls n = ls\<lparr>stack := take n (stack ls) @ replicate (n - length (stack ls)) LNil\<rparr>"

definition lua_pop :: "lua_State \<Rightarrow> nat \<Rightarrow> lua_State" where
  "lua_pop ls n = ls\<lparr>stack := take (length (stack ls) - n) (stack ls)\<rparr>"

definition lua_top :: "lua_State \<Rightarrow> lua_value" where
  "lua_top ls = (if stack ls = [] then LNil else last (stack ls))"

definition lua_rawgeti_registry :: "lua_State \<Rightarrow> int \<Rightarrow> lua_State" where
  "lua_rawgeti_registry ls r = lua_push ls (registry ls r)"

definition lua_getfield_top :: "lua_State \<Rightarrow> string \<Rightarrow> lua_State" where
  "lua_getfield_top ls k =
    lua_push ls (case lua_top ls of
                   LTable t \<Rightarrow> (case map_of t k of Some v \<Rightarrow> v | None \<Rightarrow> LNil)
                 | _ \<Rightarrow> LNil)"

text \<open>
  \<^verbatim>\<open>luaL_ref(L, LUA_REGISTRYINDEX)\<close> pops the top of the stack; for \<^verbatim>\<open>nil\<close> it returns
  \<^verbatim>\<open>LUA_REFNIL\<close> and stores nothing, otherwise it stores the value under a fresh
  reference.
\<close>

definition luaL_ref :: "lua_State \<Rightarrow> int \<times> lua_State" where
  "luaL_ref ls =
    (let v = lua_top ls; ls1 = lua_pop ls 1 in
     if v = LNil then (LUA_REFNIL, ls1)
     else (next_ref ls1,
           ls1\<lparr>registry := (registry ls1)(next_ref ls1 := v), next_ref := next_ref ls1 + 1\<rparr>))"

text \<open>
  What a call into a script does is given from outside: it returns values, raises an
  error (the status and the error object that \<^verbatim>\<open>lua_pcall\<close> leaves on the stack, after
  the error handler at index 1 has run), or calls \<^verbatim>\<open>os.exit\<close> with some arguments; for
  the case that this call raises an error instead of ending the process, what the script
  does next is given as well.
\<close>

datatype call_outcome =
    Returns "lua_value list"
  | Raises lua_error lua_value
  | Calls_os_exit "lua_value list" call_outcome

text \<open>
  The conversions of the engine that the host relies on: of a value to an integer
  (\<^verbatim>\<open>lua_tointeger\<close>, \<open>None\<close> when the value is not convertible) and of a number to a
  string (\<^verbatim>\<open>lua_tostring\<close> on a number).
\<close>

record lua_env =
  lua_tointeger :: "lua_value \<Rightarrow> int option"
  lua_number2str :: "lua_Number \<Rightarrow> string"

section \<open>Return codes, interfaces, widgets and the global state\<close>

text \<open>
  Modelled from the spec: the return codes of the entry points of a module are declared
  in \<^verbatim>\<open>include/common.h\<close>, which is not among the sources at hand. The spec has
  \<open>init(data, ...) -> OK|ERR\<close>, and for the bar driver's set entry point a success, a
  "non-fatal failure" and a "fatal return". The entry points return a C \<^verbatim>\<open>int\<close>, so a
  module may also return a value that is none of the three (\<open>LUASTATUS_other\<close>).
\<close>

datatype luastatus_ret =
    LUASTATUS_OK
  | LUASTATUS_ERR
  | LUASTATUS_NONFATAL_ERR
  | LUASTATUS_other int

text \<open>
  Of an interface struct, the model keeps which module it came from and which of the
  optional function pointers are not \<^verbatim>\<open>NULL\<close>. What a call through a function pointer
  does is given from outside at each call.
\<close>

record plugin_iface =
  pi_module :: nat
  pi_register_funcs :: bool

record barlib_iface_t =
  bi_module :: nat
  bi_register_funcs :: bool
  bi_event_watcher :: bool

record Plugin =
  iface :: plugin_iface
  name :: string
  dlhandle :: "nat option"

record Widget =
  plugin :: Plugin
  L :: "lua_State option"
  lref_cb :: int
  lref_event :: int
  sepstate_event :: bool
  filename :: string

datatype mutex = Mtx_B | Mtx_L nat | Mtx_sep

text \<open>
  The observable steps, in the order in which they happen: locking, the calls of the bar
  driver's \<^verbatim>\<open>set\<close> (with the Lua stack it is given) and \<^verbatim>\<open>set_error\<close>, protected calls
  of a Lua function with its arguments, \<^verbatim>\<open>fflush(NULL)\<close>, the opening and closing
  of shared objects, the closing of an interpreter, and the calls of \<^verbatim>\<open>destroy\<close> of a
  widget's plugin and of the bar driver. Log messages are left out.
\<close>

datatype event =
    Ev_lock mutex
  | Ev_unlock mutex
  | Ev_set nat "lua_value list"
  | Ev_set_error nat
  | Ev_pcall lua_value "lua_value list"
  | Ev_fflush
  | Ev_dlopen nat
  | Ev_dlclose nat
  | Ev_lua_close
  | Ev_plugin_destroy nat
  | Ev_barlib_destroy

record gstate =
  widgets :: "Widget list"
  sepstate_L :: "lua_State option"
  map_st :: map_state
  barlib_iface :: barlib_iface_t
  barlib_dlhandle :: "nat option"
  handles :: "nat list"
  trace :: "event list"

definition emit :: "gstate \<Rightarrow> event list \<Rightarrow> gstate" where
  "emit s es = s\<lparr>trace := trace s @ es\<rparr>"

section \<open>Loading modules\<close>

text \<open>
  The host's build-time constants (\<^verbatim>\<open>LUA_VERSION_NUM\<close> of the Lua headers and the two
  directories of \<^verbatim>\<open>config.generated.h\<close>) are parameters, and so is the dynamic linker:
  which files \<^verbatim>\<open>dlopen\<close> opens (and with which handle), and what \<^verbatim>\<open>dlsym\<close> finds in
  an open object under a name, read at the type the host reads it at.
\<close>

record config =
  LUA_VERSION_NUM :: int
  LUASTATUS_PLUGINS_DIR :: string
  LUASTATUS_BARLIBS_DIR :: string

record dl_env =
  dlopen_result :: "string \<Rightarrow> nat option"
  dlsym_int :: "nat \<Rightarrow> string \<Rightarrow> int option"
  dlsym_plugin_iface :: "nat \<Rightarrow> string \<Rightarrow> plugin_iface option"
  dlsym_barlib_iface :: "nat \<Rightarrow> string \<Rightarrow> barlib_iface_t option"

definition dlopen :: "dl_env \<Rightarrow> gstate \<Rightarrow> string \<Rightarrow> nat option \<times> gstate" where
  "dlopen dl s fname =
    (case dlopen_result dl fname of
       None \<Rightarrow> (None, s)
     | Some h \<Rightarrow> (Some h, (emit s [Ev_dlopen h])\<lparr>handles := h # handles s\<rparr>))"

definition dlclose :: "gstate \<Rightarrow> nat \<Rightarrow> gstate" where
  "dlclose s h = (emit s [Ev_dlclose h])\<lparr>handles := remove1 h (handles s)\<rparr>"

text \<open>The \<^verbatim>\<open>error:\<close> label of \<^verbatim>\<open>plugin_load\<close>.\<close>

definition plugin_load_error :: "gstate \<Rightarrow> Plugin \<Rightarrow> bool \<times> Plugin \<times> gstate" where
  "plugin_load_error s p =
    (case dlhandle p of
       Some h \<Rightarrow> (False, p, dlclose s h)
     | None \<Rightarrow> (False, p, s))"

definition plugin_load ::
  "config \<Rightarrow> dl_env \<Rightarrow> gstate \<Rightarrow> Plugin \<Rightarrow> string \<Rightarrow> string \<Rightarrow> bool \<times> Plugin \<times> gstate" where
  "plugin_load cfg dl s p fname nm =
    (let p0 = p\<lparr>dlhandle := None\<rparr>;
         (r, s1) = dlopen dl s fname;
         p1 = p0\<lparr>dlhandle := r\<rparr>
     in case r of
       None \<Rightarrow> plugin_load_error s1 p1
     | Some h \<Rightarrow>
         (case dlsym_int dl h ''LUASTATUS_PLUGIN_LUA_VERSION_NUM'' of
            None \<Rightarrow> plugin_load_error s1 p1
          | Some lua_ver \<Rightarrow>
              if lua_ver \<noteq> LUA_VERSION_NUM cfg then plugin_load_error s1 p1
              else (case dlsym_plugin_iface dl h ''luastatus_plugin_iface_v1'' of
                      None \<Rightarrow> plugin_load_error s1 p1
                    | Some i \<Rightarrow> (True, p1\<lparr>iface := i, name := nm\<rparr>, s1))))"

definition plugin_unload :: "gstate \<Rightarrow> Plugin \<Rightarrow> gstate" where
  "plugin_unload s p = (case dlhandle p of Some h \<Rightarrow> dlclose s h | None \<Rightarrow> s)"

text \<open>
  What the bar driver's \<^verbatim>\<open>init\<close> does, as far as the host sees it: the calls of
  \<^verbatim>\<open>map_get\<close> and the writes through the pointers it got, and the code it returns.
\<close>

record barlib_ext =
  bl_init_map :: "map_op list"
  bl_init_ret :: luastatus_ret

definition barlib_init_error :: "gstate \<Rightarrow> bool \<times> gstate" where
  "barlib_init_error s =
    (case barlib_dlhandle s of
       Some h \<Rightarrow> (False, dlclose s h)
     | None \<Rightarrow> (False, s))"

definition barlib_init ::
  "config \<Rightarrow> dl_env \<Rightarrow> barlib_ext \<Rightarrow> gstate \<Rightarrow> string \<Rightarrow> string list \<Rightarrow>
   (halt \<times> gstate) + (bool \<times> gstate)" where
  "barlib_init cfg dl ext s fname opts =
    (let s0 = s\<lparr>barlib_dlhandle := None\<rparr>;
         (r, s1) = dlopen dl s0 fname;
         s2 = s1\<lparr>barlib_dlhandle := r\<rparr>
     in case r of
       None \<Rightarrow> Inr (barlib_init_error s2)
     | Some h \<Rightarrow>
         (case dlsym_int dl h ''LUASTATUS_BARLIB_LUA_VERSION_NUM'' of
            None \<Rightarrow> Inr (barlib_init_error s2)
          | Some lua_ver \<Rightarrow>
              if lua_ver \<noteq> LUA_VERSION_NUM cfg then Inr (barlib_init_error s2)
              else (case dlsym_barlib_iface dl h ''luastatus_barlib_iface_v1'' of
                      None \<Rightarrow> Inr (barlib_init_error s2)
                    | Some i \<Rightarrow>
                        (let s3 = s2\<lparr>barlib_iface := i\<rparr>
                         in case map_run (map_st s3) (bl_init_map ext) of
                           Inl hl \<Rightarrow> Inl (hl, s3)
                         | Inr m \<Rightarrow>
                             (let s4 = s3\<lparr>map_st := m\<rparr>
                              in if bl_init_ret ext = LUASTATUS_ERR
                                 then Inr (barlib_init_error s4)
                                 else Inr (True, s4))))))"

text \<open>
  \<^verbatim>\<open>ASPRINTF(Fmt_, ...)\<close> formats \<^verbatim>\<open>Fmt_ "%c"\<close> with the arguments and a final
  \<^verbatim>\<open>'\0'\<close> into a buffer and returns the buffer as a \<^verbatim>\<open>char *\<close>. Of the conversions
  only \<^verbatim>\<open>%s\<close> and \<^verbatim>\<open>%c\<close> are used. The string a \<^verbatim>\<open>char *\<close> denotes ends before the
  first zero byte.
\<close>

datatype fmt_arg = Arg_s string | Arg_c char

definition cstring :: "string \<Rightarrow> string" where
  "cstring buf = takeWhile (\<lambda>c. c \<noteq> CHR 0x00) buf"

fun format :: "string \<Rightarrow> fmt_arg list \<Rightarrow> string" where
  "format [] args = []"
| "format [c] args = [c]"
| "format (c # d # f) args =
    (if c = CHR ''%'' then
       (case args of
          [] \<Rightarrow> []
        | a # args' \<Rightarrow>
            (case a of
               Arg_s str \<Rightarrow> (if d = CHR ''s'' then cstring str @ format f args' else [])
             | Arg_c ch \<Rightarrow> (if d = CHR ''c'' then ch # format f args' else [])))
     else c # format (d # f) args)"

definition ASPRINTF :: "string \<Rightarrow> fmt_arg list \<Rightarrow> string" where
  "ASPRINTF fmt args = cstring (format (fmt @ ''%c'') (args @ [Arg_c (CHR 0x00)]))"

definition strchr :: "string \<Rightarrow> char \<Rightarrow> bool" where
  "strchr str c = (c \<in> set (cstring str))"

definition plugin_load_by_name ::
  "config \<Rightarrow> dl_env \<Rightarrow> gstate \<Rightarrow> Plugin \<Rightarrow> string \<Rightarrow> bool \<times> Plugin \<times> gstate" where
  "plugin_load_by_name cfg dl s p nm =
    (if strchr nm (CHR ''/'') then plugin_load cfg dl s p nm nm
     else (let fname = ASPRINTF ''%s/plugin-%s.so'' [Arg_s (LUASTATUS_PLUGINS_DIR cfg), Arg_s nm]
           in plugin_load cfg dl s p fname nm))"

definition barlib_init_by_name ::
  "config \<Rightarrow> dl_env \<Rightarrow> barlib_ext \<Rightarrow> gstate \<Rightarrow> string \<Rightarrow> string list \<Rightarrow>
   (halt \<times> gstate) + (bool \<times> gstate)" where
  "barlib_init_by_name cfg dl ext s nm opts =
    (if strchr nm (CHR ''/'') then barlib_init cfg dl ext s nm opts
     else (let fname = ASPRINTF ''%s/barlib-%s.so'' [Arg_s (LUASTATUS_BARLIBS_DIR cfg), Arg_s nm]
           in barlib_init cfg dl ext s fname opts))"

text \<open>
  The global variables as \<^verbatim>\<open>luastatus.c\<close> initialises them: no widgets, no separate
  state, an empty map that is not frozen; \<^verbatim>\<open>barlib\<close> has static storage and starts
  zeroed.
\<close>

definition gstate_init :: gstate where
  "gstate_init =
    \<lparr>widgets = [], sepstate_L = None, map_st = map_init,
     barlib_iface = \<lparr>bi_module = 0, bi_register_funcs = False, bi_event_watcher = False\<rparr>,
     barlib_dlhandle = None, handles = [], trace = []\<rparr>"

text \<open>
  Concrete surroundings at which the theorems below are instantiated: a configuration,
  a dynamic linker that knows one plugin, one bar driver and one module built against
  another Lua version, and the content of a \<^verbatim>\<open>Plugin\<close> before it is loaded.
\<close>

definition example_config :: config where
  "example_config =
    \<lparr>LUA_VERSION_NUM = 503,
     LUASTATUS_PLUGINS_DIR = ''/usr/lib/luastatus/plugins'',
     LUASTATUS_BARLIBS_DIR = ''/usr/lib/luastatus/barlibs''\<rparr>"

definition example_dl :: dl_env where
  "example_dl =
    \<lparr>dlopen_result = (\<lambda>f.
        if f = ''/usr/lib/luastatus/plugins/plugin-udev.so'' then Some 1
        else if f = ''/usr/lib/luastatus/barlibs/barlib-i3.so'' then Some 2
        else if f = ''./old.so'' then Some 3
        else None),
     dlsym_int = (\<lambda>h n. if h = 3 then Some 501 else Some 503),
     dlsym_plugin_iface = (\<lambda>h n.
        if h = 1 \<and> n = ''luastatus_plugin_iface_v1''
        then Some \<lparr>pi_module = 1, pi_register_funcs = True\<rparr> else None),
     dlsym_barlib_iface = (\<lambda>h n.
        if h = 2 \<and> n = ''luastatus_barlib_iface_v1''
        then Some \<lparr>bi_module = 2, bi_register_funcs = False, bi_event_watcher = True\<rparr>
        else None)\<rparr>"

definition example_plugin :: Plugin where
  "example_plugin = \<lparr>iface = \<lparr>pi_module = 0, pi_register_funcs = False\<rparr>, name = [], dlhandle = None\<rparr>"

definition example_barlib_ext :: barlib_ext where
  "example_barlib_ext = \<lparr>bl_init_map = [Op_get ''i3''], bl_init_ret = LUASTATUS_OK\<rparr>"

section \<open>The udev plugin: \<^verbatim>\<open>init\<close>\<close>

text \<open>
  \<^verbatim>\<open>struct timespec\<close>, and the helpers of \<^verbatim>\<open>libls/time_utils.h\<close>, which is not among
  the sources at hand: the invalid value, the test for it and the conversion from
  seconds are parameters.
\<close>

record timespec =
  tv_sec :: int
  tv_nsec :: int

record time_utils =
  ls_timespec_invalid :: timespec
  ls_timespec_is_invalid :: "timespec \<Rightarrow> bool"
  ls_timespec_from_seconds :: "lua_Number \<Rightarrow> timespec"

text \<open>The comparison \<^verbatim>\<open>n >= 0\<close> of a double: false for a NaN.\<close>

fun num_ge_zero :: "lua_Number \<Rightarrow> bool" where
  "num_ge_zero (Finite r) = (0 \<le> r)"
| "num_ge_zero PlusInf = True"
| "num_ge_zero MinusInf = False"
| "num_ge_zero NaN = False"

record Priv =
  subsystem :: "string option"
  devtype :: "string option"
  tag :: "string option"
  kernel_ev :: bool
  greet :: bool
  timeout :: timespec
  pushed_timeout :: timespec

text \<open>
  The macros \<^verbatim>\<open>PU_MAYBE_VISIT_STR_FIELD\<close>, \<^verbatim>\<open>PU_MAYBE_VISIT_BOOL_FIELD\<close> and
  \<^verbatim>\<open>PU_MAYBE_VISIT_NUM_FIELD\<close> are defined in \<^verbatim>\<open>include/plugin_utils.h\<close>, which is
  not among the sources at hand. What such a macro finds in the options table is a
  parameter: the field is absent and the body is skipped, the field has the type the
  macro asks for and the body runs with the variable bound to the field's value, or the
  macro itself jumps to \<^verbatim>\<open>error\<close>. The bodies are those of \<^verbatim>\<open>init\<close>; \<open>None\<close> is the
  jump to \<^verbatim>\<open>error\<close>.
\<close>

datatype 'a visit = Skipped | Visited 'a | Rejected

record udev_opts =
  opt_subsystem :: "string visit"
  opt_devtype :: "string visit"
  opt_tag :: "string visit"
  opt_kernel_events :: "bool visit"
  opt_timeout :: "lua_Number visit"
  opt_greet :: "bool visit"

definition maybe_visit :: "'a visit \<Rightarrow> ('a \<Rightarrow> Priv \<Rightarrow> Priv option) \<Rightarrow> Priv \<Rightarrow> Priv option" where
  "maybe_visit f body p =
    (case f of Skipped \<Rightarrow> Some p | Visited x \<Rightarrow> body x p | Rejected \<Rightarrow> None)"

definition visit_timeout :: "time_utils \<Rightarrow> lua_Number \<Rightarrow> Priv \<Rightarrow> Priv option" where
  "visit_timeout tu n p =
    (if num_ge_zero n then
       (let p' = p\<lparr>timeout := ls_timespec_from_seconds tu n\<rparr>
        in if ls_timespec_is_invalid tu (timeout p') then None else Some p')
     else Some p)"

definition init :: "time_utils \<Rightarrow> bool \<Rightarrow> udev_opts \<Rightarrow> halt + (luastatus_ret \<times> Priv option)" where
  "init tu spin_init_ok opts =
    (let p = \<lparr>subsystem = None, devtype = None, tag = None, kernel_ev = False, greet = False,
              timeout = ls_timespec_invalid tu, pushed_timeout = ls_timespec_invalid tu\<rparr>
     in if \<not> spin_init_ok then Inl Aborted
        else case
          Option.bind
           (Option.bind
             (Option.bind
               (Option.bind
                 (Option.bind
                   (maybe_visit (opt_subsystem opts) (\<lambda>s p. Some (p\<lparr>subsystem := Some s\<rparr>)) p)
                   (maybe_visit (opt_devtype opts) (\<lambda>s p. Some (p\<lparr>devtype := Some s\<rparr>))))
                 (maybe_visit (opt_tag opts) (\<lambda>s p. Some (p\<lparr>tag := Some s\<rparr>))))
               (maybe_visit (opt_kernel_events opts) (\<lambda>b p. Some (p\<lparr>kernel_ev := b\<rparr>))))
             (maybe_visit (opt_timeout opts) (visit_timeout tu)))
           (maybe_visit (opt_greet opts) (\<lambda>b p. Some (p\<lparr>greet := b\<rparr>)))
        of
          Some p' \<Rightarrow> Inr (LUASTATUS_OK, Some p')
        | None \<Rightarrow> Inr (LUASTATUS_ERR, None))"

text \<open>Concrete inputs for \<open>init\<close>: a conversion that rejects more than a thousand seconds.\<close>

definition example_time_utils :: time_utils where
  "example_time_utils =
    \<lparr>ls_timespec_invalid = \<lparr>tv_sec = 0, tv_nsec = - 1\<rparr>,
     ls_timespec_is_invalid = (\<lambda>t. tv_nsec t < 0),
     ls_timespec_from_seconds = (\<lambda>n.
        case n of
          Finite r \<Rightarrow> if 0 \<le> r \<and> r \<le> 1000 then \<lparr>tv_sec = \<lfloor>r\<rfloor>, tv_nsec = 0\<rparr>
                      else \<lparr>tv_sec = 0, tv_nsec = - 1\<rparr>
        | _ \<Rightarrow> \<lparr>tv_sec = 0, tv_nsec = - 1\<rparr>)\<rparr>"

definition example_udev_opts :: "lua_Number \<Rightarrow> udev_opts" where
  "example_udev_opts n =
    \<lparr>opt_subsystem = Visited ''block'', opt_devtype = Skipped, opt_tag = Skipped,
     opt_kernel_events = Skipped, opt_timeout = Visited n, opt_greet = Visited True\<rparr>"

section \<open>Protected calls\<close>

text \<open>
  \<^verbatim>\<open>luaL_optinteger(L, narg, d)\<close> on the arguments of a C function: the default for an
  absent or \<^verbatim>\<open>nil\<close> argument, the integer for a convertible one, and a Lua error
  (\<open>None\<close>) otherwise.
\<close>

definition luaL_optinteger :: "lua_env \<Rightarrow> lua_value list \<Rightarrow> nat \<Rightarrow> int \<Rightarrow> int option" where
  "luaL_optinteger env args narg d =
    (if length args < narg \<or> args ! (narg - 1) = LNil then Some d
     else lua_tointeger env (args ! (narg - 1)))"

text \<open>
  \<^verbatim>\<open>l_os_exit\<close>, which \<^verbatim>\<open>inject_libs\<close> installs as \<^verbatim>\<open>os.exit\<close> in every interpreter the
  host creates: \<^verbatim>\<open>fflush(NULL)\<close> and \<^verbatim>\<open>_exit(code)\<close>, unless reading the code raises.
\<close>

definition l_os_exit :: "lua_env \<Rightarrow> gstate \<Rightarrow> lua_value list \<Rightarrow> (halt \<times> gstate) option" where
  "l_os_exit env s args =
    (case luaL_optinteger env args 1 EXIT_SUCCESS of
       None \<Rightarrow> None
     | Some code \<Rightarrow> Some (Lua_os_exit code, emit s [Ev_fflush]))"

fun run_call ::
  "lua_env \<Rightarrow> gstate \<Rightarrow> call_outcome \<Rightarrow>
   (halt \<times> gstate) + ((lua_error \<times> lua_value) + lua_value list)" where
  "run_call env s (Returns vs) = Inr (Inr vs)"
| "run_call env s (Raises e v) = Inr (Inl (e, v))"
| "run_call env s (Calls_os_exit args k) =
    (case l_os_exit env s args of Some h \<Rightarrow> Inl h | None \<Rightarrow> run_call env s k)"

definition adjust_results :: "nat \<Rightarrow> lua_value list \<Rightarrow> lua_value list" where
  "adjust_results n vs = take n vs @ replicate (n - length vs) LNil"

text \<open>
  \<^verbatim>\<open>lua_pcall(L, nargs, nresults, 1)\<close>: the function and its arguments leave the stack;
  the results, adjusted to \<^verbatim>\<open>nresults\<close>, or else the one error object take their place.
\<close>

definition lua_pcall ::
  "lua_env \<Rightarrow> gstate \<Rightarrow> lua_State \<Rightarrow> nat \<Rightarrow> nat \<Rightarrow> call_outcome \<Rightarrow>
   (halt \<times> gstate) + (lua_error option \<times> lua_State \<times> gstate)" where
  "lua_pcall env s ls nargs nresults oc =
    (if length (stack ls) < Suc nargs then Inl (Undefined, s)
     else
       (let base = length (stack ls) - Suc nargs;
            s1 = emit s [Ev_pcall (stack ls ! base) (drop (Suc base) (stack ls))]
        in case run_call env s1 oc of
          Inl h \<Rightarrow> Inl h
        | Inr (Inl (e, v)) \<Rightarrow> Inr (Some e, ls\<lparr>stack := take base (stack ls) @ [v]\<rparr>, s1)
        | Inr (Inr vs) \<Rightarrow>
            Inr (None, ls\<lparr>stack := take base (stack ls) @ adjust_results nresults vs\<rparr>, s1)))"

text \<open>\<^verbatim>\<open>check_lua_call\<close>: on an error code, the message is logged and popped.\<close>

definition check_lua_call :: "lua_State \<Rightarrow> lua_error option \<Rightarrow> bool \<times> lua_State" where
  "check_lua_call ls ret =
    (case ret of
       None \<Rightarrow> (True, ls)
     | Some e \<Rightarrow> (False, lua_pop ls 1))"

definition do_lua_call ::
  "lua_env \<Rightarrow> gstate \<Rightarrow> lua_State \<Rightarrow> nat \<Rightarrow> nat \<Rightarrow> call_outcome \<Rightarrow>
   (halt \<times> gstate) + (bool \<times> lua_State \<times> gstate)" where
  "do_lua_call env s ls nargs nresults oc =
    (case lua_pcall env s ls nargs nresults oc of
       Inl h \<Rightarrow> Inl h
     | Inr (ret, ls', s') \<Rightarrow> (let (ok, ls'') = check_lua_call ls' ret in Inr (ok, ls'', s')))"

section \<open>The callback bridge\<close>

text \<open>
  A \<^verbatim>\<open>lua_State *\<close> the host hands out points to a widget's own interpreter or to the
  separate state. A \<^verbatim>\<open>Widget *\<close> passed as \<^verbatim>\<open>userdata\<close> is the widget's index in the
  array \<^verbatim>\<open>widgets\<close>, so that \<^verbatim>\<open>widget_index\<close> is the identity.
\<close>

datatype lua_ctx = Ctx_widget nat | Ctx_sepstate

fun get_context :: "gstate \<Rightarrow> lua_ctx \<Rightarrow> lua_State option" where
  "get_context s (Ctx_widget i) = (if i < length (widgets s) then L (widgets s ! i) else None)"
| "get_context s Ctx_sepstate = sepstate_L s"

fun put_context :: "gstate \<Rightarrow> lua_ctx \<Rightarrow> lua_State \<Rightarrow> gstate" where
  "put_context s (Ctx_widget i) ls = s\<lparr>widgets := (widgets s)[i := (widgets s ! i)\<lparr>L := Some ls\<rparr>]\<rparr>"
| "put_context s Ctx_sepstate ls = s\<lparr>sepstate_L := Some ls\<rparr>"

definition widget_is_stillborn :: "Widget \<Rightarrow> bool" where
  "widget_is_stillborn w = (L w = None)"

definition widget_event_lua_state :: "nat \<Rightarrow> Widget \<Rightarrow> lua_ctx" where
  "widget_event_lua_state i w = (if sepstate_event w then Ctx_sepstate else Ctx_widget i)"

definition widget_event_L_mtx :: "nat \<Rightarrow> Widget \<Rightarrow> mutex" where
  "widget_event_L_mtx i w = (if sepstate_event w then Mtx_sep else Mtx_L i)"

definition fatal_error_reported :: "gstate \<Rightarrow> (halt \<times> gstate) + 'a" where
  "fatal_error_reported s = Inl (Fatal_exit EXIT_FAILURE, emit s [Ev_fflush])"

text \<open>
  What the surroundings do during one \<^verbatim>\<open>call_end\<close>: the Lua function that is called,
  and the bar driver's \<^verbatim>\<open>set\<close> (the code it returns and what it leaves on the stack it
  was given) and \<^verbatim>\<open>set_error\<close> (the code it returns).
\<close>

record bridge_ext =
  ext_call :: call_outcome
  ext_set_ret :: luastatus_ret
  ext_set_stack :: "lua_value list \<Rightarrow> lua_value list"
  ext_set_error_ret :: luastatus_ret

text \<open>
  \<^verbatim>\<open>set_error_unlocked\<close>; \<open>ret\<close> is the code that the bar driver's \<^verbatim>\<open>set_error\<close> returns.
\<close>

definition set_error_unlocked :: "luastatus_ret \<Rightarrow> gstate \<Rightarrow> nat \<Rightarrow> (halt \<times> gstate) + gstate" where
  "set_error_unlocked ret s widget_idx =
    (let s1 = emit s [Ev_set_error widget_idx]
     in if ret = LUASTATUS_ERR then fatal_error_reported s1 else Inr s1)"

definition plugin_call_begin :: "gstate \<Rightarrow> nat \<Rightarrow> (halt \<times> gstate) + (lua_ctx \<times> gstate)" where
  "plugin_call_begin s i =
    (if \<not> i < length (widgets s) then Inl (Undefined, s)
     else
       (let w = widgets s ! i;
            s1 = emit s [Ev_lock (Mtx_L i)]
        in case L w of
          None \<Rightarrow> Inl (Undefined, s1)
        | Some ls \<Rightarrow>
            if lua_gettop ls \<noteq> 1 then Inl (Aborted, s1)
            else Inr (Ctx_widget i,
                      put_context s1 (Ctx_widget i) (lua_rawgeti_registry ls (lref_cb w)))))"

definition plugin_call_end ::
  "lua_env \<Rightarrow> bridge_ext \<Rightarrow> gstate \<Rightarrow> nat \<Rightarrow> (halt \<times> gstate) + gstate" where
  "plugin_call_end env ext s i =
    (if \<not> i < length (widgets s) then Inl (Undefined, s)
     else case L (widgets s ! i) of
       None \<Rightarrow> Inl (Undefined, s)
     | Some ls \<Rightarrow>
         if lua_gettop ls \<noteq> 3 then Inl (Aborted, s)
         else case do_lua_call env s ls 1 1 (ext_call ext) of
           Inl h \<Rightarrow> Inl h
         | Inr (r, ls1, s1) \<Rightarrow>
             (let s2 = emit (put_context s1 (Ctx_widget i) ls1) [Ev_lock Mtx_B];
                  widget_idx = i
              in if r then
                   (let s3 = emit s2 [Ev_set widget_idx (stack ls1)];
                        ls2 = ls1\<lparr>stack := ext_set_stack ext (stack ls1)\<rparr>;
                        s4 = put_context s3 (Ctx_widget i) ls2;
                        finish = (\<lambda>s'. Inr (emit (put_context s' (Ctx_widget i) (lua_settop ls2 1))
                                       [Ev_unlock Mtx_B, Ev_unlock (Mtx_L i)]))
                    in case ext_set_ret ext of
                      LUASTATUS_OK \<Rightarrow> finish s4
                    | LUASTATUS_NONFATAL_ERR \<Rightarrow>
                        (case set_error_unlocked (ext_set_error_ret ext) s4 widget_idx of
                           Inl h \<Rightarrow> Inl h
                         | Inr s5 \<Rightarrow> finish s5)
                    | LUASTATUS_ERR \<Rightarrow> fatal_error_reported s4
                    | LUASTATUS_other c \<Rightarrow> finish s4)
                 else
                   (case set_error_unlocked (ext_set_error_ret ext) s2 widget_idx of
                      Inl h \<Rightarrow> Inl h
                    | Inr s3 \<Rightarrow> Inr (emit s3 [Ev_unlock Mtx_B, Ev_unlock (Mtx_L i)]))))"

definition plugin_call_cancel :: "gstate \<Rightarrow> nat \<Rightarrow> (halt \<times> gstate) + gstate" where
  "plugin_call_cancel s i =
    (if \<not> i < length (widgets s) then Inl (Undefined, s)
     else case L (widgets s ! i) of
       None \<Rightarrow> Inl (Undefined, s)
     | Some ls \<Rightarrow>
         Inr (emit (put_context s (Ctx_widget i) (lua_settop ls 1)) [Ev_unlock (Mtx_L i)]))"

definition ew_call_begin :: "gstate \<Rightarrow> nat \<Rightarrow> (halt \<times> gstate) + (lua_ctx \<times> gstate)" where
  "ew_call_begin s widget_idx =
    (if \<not> widget_idx < length (widgets s) then Inl (Aborted, s)
     else
       (let w = widgets s ! widget_idx;
            s1 = emit s [Ev_lock (widget_event_L_mtx widget_idx w)];
            c = widget_event_lua_state widget_idx w
        in case get_context s1 c of
          None \<Rightarrow> Inl (Undefined, s1)
        | Some ls \<Rightarrow>
            if lua_gettop ls \<noteq> 1 then Inl (Aborted, s1)
            else Inr (c, put_context s1 c (lua_rawgeti_registry ls (lref_event w)))))"

definition ew_call_end ::
  "lua_env \<Rightarrow> bridge_ext \<Rightarrow> gstate \<Rightarrow> nat \<Rightarrow> (halt \<times> gstate) + gstate" where
  "ew_call_end env ext s widget_idx =
    (if \<not> widget_idx < length (widgets s) then Inl (Aborted, s)
     else
       (let w = widgets s ! widget_idx;
            c = widget_event_lua_state widget_idx w
        in case get_context s c of
          None \<Rightarrow> Inl (Undefined, s)
        | Some ls \<Rightarrow>
            if lua_gettop ls \<noteq> 3 then Inl (Aborted, s)
            else if lref_event w = LUA_REFNIL then
              Inr (emit (put_context s c (lua_pop ls 2))
                     [Ev_unlock (widget_event_L_mtx widget_idx w)])
            else case do_lua_call env s ls 1 0 (ext_call ext) of
              Inl h \<Rightarrow> Inl h
            | Inr (r, ls1, s1) \<Rightarrow>
                (let s2 = put_context s1 c ls1
                 in if \<not> r then
                      (case set_error_unlocked (ext_set_error_ret ext) (emit s2 [Ev_lock Mtx_B]) widget_idx of
                         Inl h \<Rightarrow> Inl h
                       | Inr s3 \<Rightarrow>
                           Inr (emit s3 [Ev_unlock Mtx_B,
                                         Ev_unlock (widget_event_L_mtx widget_idx w)]))
                    else Inr (emit s2 [Ev_unlock (widget_event_L_mtx widget_idx w)]))))"

definition ew_call_cancel :: "gstate \<Rightarrow> nat \<Rightarrow> (halt \<times> gstate) + gstate" where
  "ew_call_cancel s widget_idx =
    (if \<not> widget_idx < length (widgets s) then Inl (Aborted, s)
     else
       (let w = widgets s ! widget_idx;
            c = widget_event_lua_state widget_idx w
        in case get_context s c of
          None \<Rightarrow> Inl (Undefined, s)
        | Some ls \<Rightarrow>
            Inr (emit (put_context s c (lua_settop ls 1))
                   [Ev_unlock (widget_event_L_mtx widget_idx w)])))"

text \<open>
  Between \<^verbatim>\<open>call_begin\<close> and \<^verbatim>\<open>call_end\<close> or \<^verbatim>\<open>call_cancel\<close>, the caller works on the
  stack of the interpreter it was given: any function \<open>f\<close> on stacks.
\<close>

definition caller_pushes :: "gstate \<Rightarrow> lua_ctx \<Rightarrow> (lua_value list \<Rightarrow> lua_value list) \<Rightarrow> gstate" where
  "caller_pushes s c f =
    (case get_context s c of
       None \<Rightarrow> s
     | Some ls \<Rightarrow> put_context s c (ls\<lparr>stack := f (stack ls)\<rparr>))"

definition context_depth :: "gstate \<Rightarrow> lua_ctx \<Rightarrow> nat option" where
  "context_depth s c = map_option lua_gettop (get_context s c)"

text \<open>
  A call comes back to the host (with values or with an error) when the script does not
  end the process: every \<^verbatim>\<open>os.exit\<close> it calls raises instead of exiting.
\<close>

fun returns_to_host :: "lua_env \<Rightarrow> call_outcome \<Rightarrow> bool" where
  "returns_to_host env (Returns vs) = True"
| "returns_to_host env (Raises e v) = True"
| "returns_to_host env (Calls_os_exit args k) =
    (luaL_optinteger env args 1 EXIT_SUCCESS = None \<and> returns_to_host env k)"

text \<open>
  Concrete surroundings for the bridge: an interpreter as it is after initialisation
  (only the error handler on its stack), a state with a Normal widget at index 0, whose
  callback is pinned under reference 1, and a Stillborn widget at index 1, and a call
  that returns one string to a bar driver that accepts it.
\<close>

definition example_lua_env :: lua_env where
  "example_lua_env =
    \<lparr>lua_tointeger = (\<lambda>v. case v of LNum (Finite r) \<Rightarrow> Some \<lfloor>r\<rfloor> | _ \<Rightarrow> None),
     lua_number2str = (\<lambda>n. ''0'')\<rparr>"

definition example_lua_state :: lua_State where
  "example_lua_state =
    \<lparr>stack = [LCFunction ''l_error_handler''], registry = (\<lambda>r. LNil), next_ref = 1\<rparr>"

definition example_state :: gstate where
  "example_state =
    gstate_init
      \<lparr>widgets :=
         [\<lparr>plugin = example_plugin\<lparr>name := ''udev'', dlhandle := Some 1\<rparr>,
           L = Some (example_lua_state\<lparr>registry := (\<lambda>r. LNil)(1 := LFunction 7), next_ref := 2\<rparr>),
           lref_cb = 1, lref_event = LUA_REFNIL, sepstate_event = False,
           filename = ''w0.lua''\<rparr>,
          \<lparr>plugin = example_plugin, L = None, lref_cb = 0, lref_event = LUA_REFNIL,
           sepstate_event = True, filename = ''w1.lua''\<rparr>],
       sepstate_L := Some example_lua_state\<rparr>"

definition example_bridge_ext :: bridge_ext where
  "example_bridge_ext =
    \<lparr>ext_call = Returns [LStr ''ok''], ext_set_ret = LUASTATUS_OK,
     ext_set_stack = (\<lambda>st. st), ext_set_error_ret = LUASTATUS_OK\<rparr>"

text \<open>What a call that may end the process leaves behind: the steps taken, and how it ended.\<close>

definition result_trace :: "(halt \<times> gstate) + gstate \<Rightarrow> event list" where
  "result_trace r = (case r of Inl (h, s) \<Rightarrow> trace s | Inr s \<Rightarrow> trace s)"

definition result_halt :: "(halt \<times> gstate) + gstate \<Rightarrow> halt option" where
  "result_halt r = (case r of Inl (h, s) \<Rightarrow> Some h | Inr s \<Rightarrow> None)"

text \<open>
  The example state in the middle of a call on widget 0: its callback and one argument
  are above the error handler.
\<close>

definition example_state_in_call :: gstate where
  "example_state_in_call =
    example_state
      \<lparr>widgets :=
         (widgets example_state)
           [0 := (widgets example_state ! 0)
              \<lparr>L := Some (example_lua_state
                   \<lparr>stack := [LCFunction ''l_error_handler'', LFunction 7, LStr ''data'']\<rparr>)\<rparr>]\<rparr>"

section \<open>Creating interpreters and initialising widgets\<close>

text \<open>
  \<^verbatim>\<open>xnew_lua_state\<close> aborts when \<^verbatim>\<open>luaL_newstate\<close> returns \<^verbatim>\<open>NULL\<close>; whether it does
  is given from outside.
\<close>

definition xnew_lua_state :: "bool \<Rightarrow> gstate \<Rightarrow> (halt \<times> gstate) + lua_State" where
  "xnew_lua_state newstate_ok s =
    (if newstate_ok then Inr \<lparr>stack = [], registry = (\<lambda>r. LNil), next_ref = 1\<rparr>
     else Inl (Aborted, s))"

text \<open>
  \<^verbatim>\<open>inject_libs\<close>, by its stack: the \<^verbatim>\<open>os\<close> table is pushed, the three replacements are
  pushed and stored in it, the table is popped; then the \<^verbatim>\<open>luastatus\<close> table is built
  and stored as a global. From here on \<^verbatim>\<open>os.exit\<close> in this interpreter is \<open>l_os_exit\<close>.
\<close>

definition inject_libs :: "lua_State \<Rightarrow> lua_State" where
  "inject_libs ls =
    (let ls1 = lua_push ls (LTable []);
         ls2 = lua_pop (lua_push ls1 (LCFunction ''l_os_exit'')) 1;
         ls3 = lua_pop (lua_push ls2 (LCFunction ''l_os_getenv'')) 1;
         ls4 = lua_pop (lua_push ls3 (LCFunction ''l_os_setlocale'')) 1;
         ls5 = lua_pop ls4 1;
         ls6 = lua_push ls5 (LTable []);
         ls7 = lua_push ls6 (LTable []);
         ls8 = lua_push (lua_pop ls7 1) (LCFunction ''l_require_plugin'');
         ls9 = lua_pop ls8 1
     in lua_pop ls9 1)"

definition sepstate_maybe_init :: "bool \<Rightarrow> gstate \<Rightarrow> (halt \<times> gstate) + gstate" where
  "sepstate_maybe_init newstate_ok s =
    (case sepstate_L s of
       Some ls \<Rightarrow> Inr s
     | None \<Rightarrow>
         (case xnew_lua_state newstate_ok s of
            Inl h \<Rightarrow> Inl h
          | Inr ls \<Rightarrow>
              Inr (s\<lparr>sepstate_L :=
                       Some (lua_push (inject_libs ls) (LCFunction ''l_error_handler''))\<rparr>)))"

text \<open>
  What the surroundings do while one widget is initialised: whether the interpreters
  can be allocated, what \<^verbatim>\<open>luaL_loadfile\<close> gives for the widget's file (an error code
  with its message, or the compiled chunk), what running the chunk does, the value of
  the global \<^verbatim>\<open>widget\<close> afterwards, what \<^verbatim>\<open>luaL_loadbuffer\<close> gives for the text of
  \<^verbatim>\<open>widget.event\<close>, and the plugin's \<^verbatim>\<open>init\<close>: its use of the map, what it leaves on
  the stack and the code it returns; and what the finalizers of the widget's interpreter
  do when it is closed, be it after a failed initialisation or when \<^verbatim>\<open>main\<close> cleans up.
\<close>

record widget_ext =
  we_newstate_ok :: bool
  we_loadfile :: "(lua_error \<times> lua_value) + lua_value"
  we_chunk :: call_outcome
  we_widget :: lua_value
  we_sep_newstate_ok :: bool
  we_loadbuffer :: "(lua_error \<times> lua_value) + lua_value"
  we_init_map :: "map_op list"
  we_init_stack :: "lua_value list \<Rightarrow> lua_value list"
  we_init_ret :: luastatus_ret
  we_finalizers :: call_outcome

definition luaL_load ::
  "lua_State \<Rightarrow> (lua_error \<times> lua_value) + lua_value \<Rightarrow> lua_error option \<times> lua_State" where
  "luaL_load ls r =
    (case r of
       Inl (e, msg) \<Rightarrow> (Some e, lua_push ls msg)
     | Inr chunk \<Rightarrow> (None, lua_push ls chunk))"

definition lua_isstring :: "lua_value \<Rightarrow> bool" where
  "lua_isstring v = (lua_type_of v = LUA_TSTRING \<or> lua_type_of v = LUA_TNUMBER)"

definition lua_tostring :: "lua_env \<Rightarrow> lua_value \<Rightarrow> string" where
  "lua_tostring env v = (case v of LStr str \<Rightarrow> str | LNum n \<Rightarrow> lua_number2str env n | _ \<Rightarrow> [])"

definition widget_init_inspect_plugin ::
  "config \<Rightarrow> dl_env \<Rightarrow> lua_env \<Rightarrow> gstate \<Rightarrow> Widget \<Rightarrow> lua_State \<Rightarrow>
   bool \<times> Widget \<times> lua_State \<times> gstate" where
  "widget_init_inspect_plugin cfg dl env s w ls =
    (let ls1 = lua_getfield_top ls ''plugin''
     in if \<not> lua_isstring (lua_top ls1) then (False, w, ls1, s)
        else
          (let (ok, p, s1) = plugin_load_by_name cfg dl s (plugin w) (lua_tostring env (lua_top ls1))
           in if \<not> ok then (False, w\<lparr>plugin := p\<rparr>, ls1, s1)
              else (True, w\<lparr>plugin := p\<rparr>, lua_pop ls1 1, s1)))"

definition widget_init_inspect_cb :: "Widget \<Rightarrow> lua_State \<Rightarrow> bool \<times> Widget \<times> lua_State" where
  "widget_init_inspect_cb w ls =
    (let ls1 = lua_getfield_top ls ''cb''
     in if lua_type_of (lua_top ls1) \<noteq> LUA_TFUNCTION then (False, w, ls1)
        else (let (r, ls2) = luaL_ref ls1 in (True, w\<lparr>lref_cb := r\<rparr>, ls2)))"

definition widget_init_inspect_event ::
  "widget_ext \<Rightarrow> gstate \<Rightarrow> Widget \<Rightarrow> lua_State \<Rightarrow> string \<Rightarrow>
   (halt \<times> gstate) + (bool \<times> Widget \<times> lua_State \<times> gstate)" where
  "widget_init_inspect_event ext s w ls fname =
    (let ls1 = lua_getfield_top ls ''event''
     in if lua_type_of (lua_top ls1) = LUA_TNIL \<or> lua_type_of (lua_top ls1) = LUA_TFUNCTION then
          (let (r, ls2) = luaL_ref ls1
           in Inr (True, w\<lparr>lref_event := r, sepstate_event := False\<rparr>, ls2, s))
        else if lua_type_of (lua_top ls1) = LUA_TSTRING then
          (case sepstate_maybe_init (we_sep_newstate_ok ext) s of
             Inl h \<Rightarrow> Inl h
           | Inr s1 \<Rightarrow>
               (case sepstate_L s1 of
                  None \<Rightarrow> Inl (Undefined, s1)
                | Some sl \<Rightarrow>
                    (let (ret, sl1) = luaL_load sl (we_loadbuffer ext);
                         (r, sl2) = check_lua_call sl1 ret
                     in if \<not> r then Inr (False, w, ls1, s1\<lparr>sepstate_L := Some sl2\<rparr>)
                        else
                          (let (ref, sl3) = luaL_ref sl2
                           in Inr (True, w\<lparr>lref_event := ref, sepstate_event := True\<rparr>,
                                   lua_pop ls1 1, s1\<lparr>sepstate_L := Some sl3\<rparr>)))))
        else Inr (False, w, ls1, s))"

definition widget_init_inspect_push_opts :: "lua_State \<Rightarrow> bool \<times> lua_State" where
  "widget_init_inspect_push_opts ls =
    (let ls1 = lua_getfield_top ls ''opts''
     in if lua_type_of (lua_top ls1) = LUA_TTABLE then (True, ls1)
        else if lua_type_of (lua_top ls1) = LUA_TNIL then
          (True, lua_push (lua_pop ls1 1) (LTable []))
        else (False, ls1))"

text \<open>
  \<^verbatim>\<open>lua_close\<close> runs the finalizers (the \<^verbatim>\<open>__gc\<close> metamethods) of the objects of the
  interpreter. They are code of the script, so what they do is given from outside, as
  for a call: an error they raise goes no further, but \<^verbatim>\<open>os.exit\<close> in a finalizer is
  \<open>l_os_exit\<close> and ends the process.
\<close>

definition lua_close :: "lua_env \<Rightarrow> gstate \<Rightarrow> call_outcome \<Rightarrow> (halt \<times> gstate) + gstate" where
  "lua_close env s fin =
    (let s1 = emit s [Ev_lua_close]
     in case run_call env s1 fin of
          Inl h \<Rightarrow> Inl h
        | Inr r \<Rightarrow> Inr s1)"

text \<open>
  The \<^verbatim>\<open>error:\<close> label of \<^verbatim>\<open>widget_init\<close>: the interpreter is closed (the widget's
  pointer to it is left as it is) and the plugin, if it was loaded, is unloaded.
\<close>

definition widget_init_error ::
  "lua_env \<Rightarrow> widget_ext \<Rightarrow> gstate \<Rightarrow> Widget \<Rightarrow> lua_State \<Rightarrow> bool \<Rightarrow>
   (halt \<times> gstate) + (bool \<times> Widget \<times> gstate)" where
  "widget_init_error env ext s w ls plugin_loaded =
    (case lua_close env s (we_finalizers ext) of
       Inl h \<Rightarrow> Inl h
     | Inr s1 \<Rightarrow>
         Inr (False, w\<lparr>L := Some ls\<rparr>,
              if plugin_loaded then plugin_unload s1 (plugin w) else s1))"

definition widget_init ::
  "config \<Rightarrow> dl_env \<Rightarrow> lua_env \<Rightarrow> widget_ext \<Rightarrow> gstate \<Rightarrow> Widget \<Rightarrow> string \<Rightarrow>
   (halt \<times> gstate) + (bool \<times> Widget \<times> gstate)" where
  "widget_init cfg dl env ext s w fname =
    (case xnew_lua_state (we_newstate_ok ext) s of
       Inl h \<Rightarrow> Inl h
     | Inr ls0 \<Rightarrow>
       (let w0 = w\<lparr>filename := fname\<rparr>;
            ls1 = lua_push (inject_libs ls0) (LCFunction ''l_error_handler'');
            (ret, ls2) = luaL_load ls1 (we_loadfile ext);
            (r, ls3) = check_lua_call ls2 ret
        in if \<not> r then widget_init_error env ext s w0 ls3 False
        else case do_lua_call env s ls3 0 0 (we_chunk ext) of
          Inl h \<Rightarrow> Inl h
        | Inr (r, ls4, s1) \<Rightarrow>
          if \<not> r then widget_init_error env ext s1 w0 ls4 False
          else
            (let ls5 = lua_push ls4 (we_widget ext)
             in if lua_type_of (lua_top ls5) \<noteq> LUA_TTABLE then widget_init_error env ext s1 w0 ls5 False
             else
               (let (r, w1, ls6, s2) = widget_init_inspect_plugin cfg dl env s1 w0 ls5
                in if \<not> r then widget_init_error env ext s2 w1 ls6 False
                else
                  (let (r, w2, ls7) = widget_init_inspect_cb w1 ls6
                   in if \<not> r then widget_init_error env ext s2 w2 ls7 True
                   else case widget_init_inspect_event ext s2 w2 ls7 fname of
                     Inl h \<Rightarrow> Inl h
                   | Inr (r, w3, ls8, s3) \<Rightarrow>
                     if \<not> r then widget_init_error env ext s3 w3 ls8 True
                     else
                       (let (r, ls9) = widget_init_inspect_push_opts ls8
                        in if \<not> r then widget_init_error env ext s3 w3 ls9 True
                        else case map_run (map_st s3) (we_init_map ext) of
                          Inl hl \<Rightarrow> Inl (hl, s3)
                        | Inr m \<Rightarrow>
                          (let s4 = s3\<lparr>map_st := m\<rparr>;
                               ls10 = ls9\<lparr>stack := we_init_stack ext (stack ls9)\<rparr>
                           in if we_init_ret ext = LUASTATUS_ERR
                              then widget_init_error env ext s4 w3 ls10 True
                              else if lua_gettop ls10 \<noteq> 3 then Inl (Aborted, s4)
                              else Inr (True, w3\<lparr>L := Some (lua_pop ls10 2)\<rparr>, s4))))))))"

definition widget_init_stillborn ::
  "bool \<Rightarrow> gstate \<Rightarrow> Widget \<Rightarrow> (halt \<times> gstate) + (Widget \<times> gstate)" where
  "widget_init_stillborn newstate_ok s w =
    (case sepstate_maybe_init newstate_ok s of
       Inl h \<Rightarrow> Inl h
     | Inr s1 \<Rightarrow> Inr (w\<lparr>L := None, lref_event := LUA_REFNIL, sepstate_event := True\<rparr>, s1))"

text \<open>
  \<^verbatim>\<open>widgets_init\<close>: the array is allocated (\<open>raw\<close> is what the fresh memory holds) and
  each widget is initialised in turn, made stillborn when its initialisation fails.
\<close>

fun widgets_init_loop ::
  "config \<Rightarrow> dl_env \<Rightarrow> lua_env \<Rightarrow> gstate \<Rightarrow> nat \<Rightarrow> (string \<times> widget_ext) list \<Rightarrow>
   (halt \<times> gstate) + gstate" where
  "widgets_init_loop cfg dl env s i [] = Inr s"
| "widgets_init_loop cfg dl env s i ((fname, ext) # rest) =
    (case widget_init cfg dl env ext s (widgets s ! i) fname of
       Inl h \<Rightarrow> Inl h
     | Inr (r, w, s1) \<Rightarrow>
         if r then widgets_init_loop cfg dl env (s1\<lparr>widgets := (widgets s1)[i := w]\<rparr>) (Suc i) rest
         else
           (case widget_init_stillborn (we_sep_newstate_ok ext) s1 w of
              Inl h \<Rightarrow> Inl h
            | Inr (w', s2) \<Rightarrow>
                widgets_init_loop cfg dl env (s2\<lparr>widgets := (widgets s2)[i := w']\<rparr>) (Suc i) rest))"

definition widgets_init ::
  "config \<Rightarrow> dl_env \<Rightarrow> lua_env \<Rightarrow> gstate \<Rightarrow> (nat \<Rightarrow> Widget) \<Rightarrow> (string \<times> widget_ext) list \<Rightarrow>
   (halt \<times> gstate) + gstate" where
  "widgets_init cfg dl env s raw files =
    widgets_init_loop cfg dl env (s\<lparr>widgets := map raw [0 ..< length files]\<rparr>) 0 files"

text \<open>
  The state of the separate interpreter is as it should be when its stack holds the
  error handler only; \<open>pres\<close> collects what initialising a widget keeps of the state:
  the array of widgets, that property, and that the separate interpreter exists.
  \<open>stillborn_inv n\<close> says that each of the first \<open>n\<close> widgets, if it is Stillborn, has the
  fields of a Stillborn widget and that the separate interpreter then exists.
\<close>

definition sep_ok :: "gstate \<Rightarrow> bool" where
  "sep_ok s = (case sepstate_L s of None \<Rightarrow> True | Some sl \<Rightarrow> lua_gettop sl = 1)"

definition pres :: "gstate \<Rightarrow> gstate \<Rightarrow> bool" where
  "pres s s' = (widgets s' = widgets s \<and> (sep_ok s \<longrightarrow> sep_ok s')
     \<and> (sepstate_L s \<noteq> None \<longrightarrow> sepstate_L s' \<noteq> None))"

definition stillborn_inv :: "nat \<Rightarrow> gstate \<Rightarrow> bool" where
  "stillborn_inv n s =
    (sep_ok s
     \<and> (\<forall>j<n. L (widgets s ! j) = None \<longrightarrow>
           lref_event (widgets s ! j) = LUA_REFNIL \<and> sepstate_event (widgets s ! j)
           \<and> sepstate_L s \<noteq> None))"

text \<open>
  Concrete widgets: what the fresh memory of the array holds, a file that cannot be
  read, a script that names a plugin which is not installed, a script that ends the
  process with \<^verbatim>\<open>os.exit()\<close>, and a well-formed script for the plugin \<open>udev\<close>.
\<close>

definition example_raw_widget :: Widget where
  "example_raw_widget =
    \<lparr>plugin = example_plugin, L = Some example_lua_state, lref_cb = 42, lref_event = 17,
     sepstate_event = False, filename = []\<rparr>"

definition example_widget_good :: widget_ext where
  "example_widget_good =
    \<lparr>we_newstate_ok = True,
     we_loadfile = Inr (LFunction 1),
     we_chunk = Returns [],
     we_widget = LTable [(''plugin'', LStr ''udev''), (''cb'', LFunction 2)],
     we_sep_newstate_ok = True,
     we_loadbuffer = Inr (LFunction 3),
     we_init_map = [],
     we_init_stack = (\<lambda>st. st),
     we_init_ret = LUASTATUS_OK,
     we_finalizers = Returns []\<rparr>"

definition example_widget_nofile :: widget_ext where
  "example_widget_nofile =
    example_widget_good\<lparr>we_loadfile := Inl (LUA_ERRFILE, LStr ''cannot open a.lua'')\<rparr>"

definition example_widget_noplugin :: widget_ext where
  "example_widget_noplugin =
    example_widget_good
      \<lparr>we_widget := LTable [(''plugin'', LStr ''nosuch''), (''cb'', LFunction 2)]\<rparr>"


section \<open>Registering functions, running and \<^verbatim>\<open>main\<close>\<close>

text \<open>
  What the surroundings do during one \<^verbatim>\<open>register_funcs\<close>: the value of the global
  \<^verbatim>\<open>luastatus\<close> (a script may have replaced it), and what the bar driver's and the
  plugin's \<^verbatim>\<open>register_funcs\<close> leave on the stack they are given.
\<close>

record regfuncs_ext =
  rf_luastatus :: lua_value
  rf_barlib_stack :: "lua_value list \<Rightarrow> lua_value list"
  rf_plugin_stack :: "lua_value list \<Rightarrow> lua_value list"

text \<open>
  One of the two blocks of \<^verbatim>\<open>register_funcs\<close>: a new table is pushed, the module's
  function runs, the assertion compares the depth with the one before, and
  \<^verbatim>\<open>lua_setfield\<close> pops the table. \<open>None\<close> is the failed assertion.
\<close>

definition register_into :: "lua_State \<Rightarrow> (lua_value list \<Rightarrow> lua_value list) \<Rightarrow> lua_State option" where
  "register_into ls f =
    (let ls1 = lua_push ls (LTable []);
         old_top = lua_gettop ls1;
         ls2 = ls1\<lparr>stack := f (stack ls1)\<rparr>
     in if lua_gettop ls2 \<noteq> old_top then None else Some (lua_pop ls2 1))"

definition register_funcs ::
  "regfuncs_ext \<Rightarrow> gstate \<Rightarrow> lua_State \<Rightarrow> Widget option \<Rightarrow> (halt \<times> gstate) + lua_State" where
  "register_funcs ext s ls w =
    (let ls1 = lua_push ls (rf_luastatus ext)
     in if lua_type_of (lua_top ls1) \<noteq> LUA_TTABLE then
          (case w of
             None \<Rightarrow> Inl (Aborted, s)
           | Some w' \<Rightarrow> if widget_is_stillborn w' then Inl (Aborted, s) else Inr (lua_pop ls1 1))
        else
          (case (if bi_register_funcs (barlib_iface s)
                 then register_into ls1 (rf_barlib_stack ext) else Some ls1) of
             None \<Rightarrow> Inl (Aborted, s)
           | Some ls2 \<Rightarrow>
               (case (if (case w of None \<Rightarrow> False
                                  | Some w' \<Rightarrow> pi_register_funcs (iface (plugin w')))
                      then register_into ls2 (rf_plugin_stack ext) else Some ls2) of
                  None \<Rightarrow> Inl (Aborted, s)
                | Some ls3 \<Rightarrow> Inr (lua_pop ls3 1))))"

text \<open>
  The command line as \<^verbatim>\<open>getopt(argc, argv, "b:B:l:ev")\<close> reads it: the options in
  their order (anything else is \<^verbatim>\<open>'?'\<close>), followed by the widget files.
\<close>

datatype cli_opt = Opt_b string | Opt_B string | Opt_l string | Opt_e | Opt_v | Opt_unknown

record cli_args =
  barlib_name :: "string option"
  barlib_args :: "string list"
  eflag :: bool
  loglevel :: nat

text \<open>The variables of \<^verbatim>\<open>main\<close> (and the global \<^verbatim>\<open>loglevel\<close>) before the option loop.\<close>

definition cli_args_init :: cli_args where
  "cli_args_init =
    \<lparr>barlib_name = None, barlib_args = [], eflag = False, loglevel = LUASTATUS_LOG_INFO\<rparr>"

text \<open>The option loop of \<^verbatim>\<open>main\<close>; \<open>None\<close> is \<^verbatim>\<open>goto cleanup\<close>.\<close>

fun parse_args :: "cli_args \<Rightarrow> cli_opt list \<Rightarrow> halt + cli_args option" where
  "parse_args a [] = Inr (Some a)"
| "parse_args a (Opt_b n # os) = parse_args (a\<lparr>barlib_name := Some n\<rparr>) os"
| "parse_args a (Opt_B x # os) = parse_args (a\<lparr>barlib_args := barlib_args a @ [x]\<rparr>) os"
| "parse_args a (Opt_l x # os) =
    (case loglevel_fromstr x of
       Inl h \<Rightarrow> Inl h
     | Inr l \<Rightarrow>
         if l = LUASTATUS_LOG_LAST then Inr None else parse_args (a\<lparr>loglevel := l\<rparr>) os)"
| "parse_args a (Opt_e # os) = parse_args (a\<lparr>eflag := True\<rparr>) os"
| "parse_args a (Opt_v # os) = Inr None"
| "parse_args a (Opt_unknown # os) = Inr None"

text \<open>
  After the threads are started, the plugins' \<^verbatim>\<open>run\<close> functions and the bar driver's
  event watcher run side by side. What they do is given as one sequence of their steps,
  in the order in which they take effect: a plugin's \<^verbatim>\<open>run\<close> makes a call through the
  bridge (with what it pushes, and what the surroundings do during \<^verbatim>\<open>call_end\<close>) or
  cancels one, or returns (then \<^verbatim>\<open>widget_thread\<close> reports an error for the widget; the
  code is what \<^verbatim>\<open>set_error\<close> returns); the event watcher does the same for a widget
  index, or returns a code. A step of a thread that is not running is skipped. When the
  sequence ends while a thread or the event watcher has not returned, \<^verbatim>\<open>main\<close> waits
  for ever. The sequence starts after the loop that starts the threads.
\<close>

datatype sched_event =
    Plugin_call nat "lua_value list \<Rightarrow> lua_value list" bridge_ext
  | Plugin_cancel nat "lua_value list \<Rightarrow> lua_value list"
  | Plugin_run_returns nat luastatus_ret
  | EW_call nat "lua_value list \<Rightarrow> lua_value list" bridge_ext
  | EW_cancel nat "lua_value list \<Rightarrow> lua_value list"
  | EW_returns luastatus_ret

text \<open>
  One step of the sequence, from the state, the widgets whose thread is running and
  whether the event watcher is running.
\<close>

fun sched_step ::
  "lua_env \<Rightarrow> gstate \<Rightarrow> nat list \<Rightarrow> bool \<Rightarrow> sched_event \<Rightarrow>
   (halt \<times> gstate) + (gstate \<times> nat list \<times> bool)" where
  "sched_step env s alive ew (Plugin_call i f ext) =
    (if i \<notin> set alive then Inr (s, alive, ew)
     else case plugin_call_begin s i of
       Inl h \<Rightarrow> Inl h
     | Inr (c, s1) \<Rightarrow>
         (case plugin_call_end env ext (caller_pushes s1 c f) i of
            Inl h \<Rightarrow> Inl h
          | Inr s2 \<Rightarrow> Inr (s2, alive, ew)))"
| "sched_step env s alive ew (Plugin_cancel i f) =
    (if i \<notin> set alive then Inr (s, alive, ew)
     else case plugin_call_begin s i of
       Inl h \<Rightarrow> Inl h
     | Inr (c, s1) \<Rightarrow>
         (case plugin_call_cancel (caller_pushes s1 c f) i of
            Inl h \<Rightarrow> Inl h
          | Inr s2 \<Rightarrow> Inr (s2, alive, ew)))"
| "sched_step env s alive ew (Plugin_run_returns i ret) =
    (if i \<notin> set alive then Inr (s, alive, ew)
     else case set_error_unlocked ret (emit s [Ev_lock Mtx_B]) i of
       Inl h \<Rightarrow> Inl h
     | Inr s1 \<Rightarrow> Inr (emit s1 [Ev_unlock Mtx_B], remove1 i alive, ew))"
| "sched_step env s alive ew (EW_call i f ext) =
    (if \<not> ew then Inr (s, alive, ew)
     else case ew_call_begin s i of
       Inl h \<Rightarrow> Inl h
     | Inr (c, s1) \<Rightarrow>
         (case ew_call_end env ext (caller_pushes s1 c f) i of
            Inl h \<Rightarrow> Inl h
          | Inr s2 \<Rightarrow> Inr (s2, alive, ew)))"
| "sched_step env s alive ew (EW_cancel i f) =
    (if \<not> ew then Inr (s, alive, ew)
     else case ew_call_begin s i of
       Inl h \<Rightarrow> Inl h
     | Inr (c, s1) \<Rightarrow>
         (case ew_call_cancel (caller_pushes s1 c f) i of
            Inl h \<Rightarrow> Inl h
          | Inr s2 \<Rightarrow> Inr (s2, alive, ew)))"
| "sched_step env s alive ew (EW_returns ret) =
    (if \<not> ew then Inr (s, alive, ew)
     else if ret = LUASTATUS_ERR then fatal_error_reported s
     else Inr (s, alive, False))"

text \<open>The steps in turn, up to the first that ends the process.\<close>

fun run_steps ::
  "lua_env \<Rightarrow> gstate \<Rightarrow> nat list \<Rightarrow> bool \<Rightarrow> sched_event list \<Rightarrow>
   (halt \<times> gstate) + (gstate \<times> nat list \<times> bool)" where
  "run_steps env s alive ew [] = Inr (s, alive, ew)"
| "run_steps env s alive ew (e # evs) =
    (case sched_step env s alive ew e of
       Inl h \<Rightarrow> Inl h
     | Inr (s1, alive1, ew1) \<Rightarrow> run_steps env s1 alive1 ew1 evs)"

text \<open>
  The event watcher and the joining of the threads in \<^verbatim>\<open>main\<close>: \<^verbatim>\<open>main\<close> goes on when
  the event watcher and every thread have returned.
\<close>

definition run_schedule ::
  "lua_env \<Rightarrow> gstate \<Rightarrow> nat list \<Rightarrow> bool \<Rightarrow> sched_event list \<Rightarrow> (halt \<times> gstate) + gstate" where
  "run_schedule env s alive ew evs =
    (case run_steps env s alive ew evs of
       Inl h \<Rightarrow> Inl h
     | Inr (s1, alive1, ew1) \<Rightarrow>
         if alive1 = [] \<and> \<not> ew1 then Inr s1 else Inl (Hangs, s1))"

text \<open>
  What the surroundings do during \<^verbatim>\<open>main\<close>: the content of the fresh array of
  widgets, the bar driver's \<^verbatim>\<open>init\<close>, the calls of \<^verbatim>\<open>register_funcs\<close> (for the
  separate state and for each widget), the code \<^verbatim>\<open>set_error\<close> returns for each
  Stillborn widget, the steps of the threads and the event watcher, and what the
  finalizers of the separate interpreter do when it is closed.
\<close>

record main_ext =
  m_raw :: "nat \<Rightarrow> Widget"
  m_barlib :: barlib_ext
  m_regfuncs_sep :: regfuncs_ext
  m_regfuncs :: "nat \<Rightarrow> regfuncs_ext"
  m_set_error_ret :: "nat \<Rightarrow> luastatus_ret"
  m_schedule :: "sched_event list"
  m_sep_finalizers :: call_outcome

text \<open>
  The loop of \<^verbatim>\<open>main\<close> over the widgets: an error is reported for a Stillborn one, a
  thread is started for any other; \<open>threads\<close> collects the indices of the widgets that
  got a thread.
\<close>

fun spawn_threads ::
  "main_ext \<Rightarrow> gstate \<Rightarrow> nat list \<Rightarrow> nat list \<Rightarrow> (halt \<times> gstate) + (nat list \<times> gstate)" where
  "spawn_threads mx s [] threads = Inr (threads, s)"
| "spawn_threads mx s (i # is) threads =
    (case L (widgets s ! i) of
       None \<Rightarrow>
         (case set_error_unlocked (m_set_error_ret mx i) (emit s [Ev_lock Mtx_B]) i of
            Inl h \<Rightarrow> Inl h
          | Inr s1 \<Rightarrow> spawn_threads mx (emit s1 [Ev_unlock Mtx_B]) is threads)
     | Some ls \<Rightarrow>
         (case register_funcs (m_regfuncs mx i) s ls (Some (widgets s ! i)) of
            Inl h \<Rightarrow> Inl h
          | Inr ls' \<Rightarrow> spawn_threads mx (put_context s (Ctx_widget i) ls') is (threads @ [i])))"

text \<open>
  The \<^verbatim>\<open>cleanup:\<close> label of \<^verbatim>\<open>main\<close> and the functions it calls. A widget is given
  by its index in the array; it was made from the file with the same index, which
  gives what the finalizers of its interpreter do. The pointers to the closed
  interpreters are left as they are.
\<close>

definition widget_destroy ::
  "lua_env \<Rightarrow> call_outcome \<Rightarrow> gstate \<Rightarrow> nat \<Rightarrow> (halt \<times> gstate) + gstate" where
  "widget_destroy env fin s i =
    (let w = widgets s ! i
     in if \<not> widget_is_stillborn w then
          lua_close env (plugin_unload (emit s [Ev_plugin_destroy i]) (plugin w)) fin
        else Inr s)"

fun widgets_destroy_loop ::
  "lua_env \<Rightarrow> (string \<times> widget_ext) list \<Rightarrow> gstate \<Rightarrow> nat list \<Rightarrow> (halt \<times> gstate) + gstate" where
  "widgets_destroy_loop env files s [] = Inr s"
| "widgets_destroy_loop env files s (i # is) =
    (case widget_destroy env (we_finalizers (snd (files ! i))) s i of
       Inl h \<Rightarrow> Inl h
     | Inr s1 \<Rightarrow> widgets_destroy_loop env files s1 is)"

definition widgets_destroy ::
  "lua_env \<Rightarrow> (string \<times> widget_ext) list \<Rightarrow> gstate \<Rightarrow> (halt \<times> gstate) + gstate" where
  "widgets_destroy env files s =
    (case widgets_destroy_loop env files s [0 ..< length (widgets s)] of
       Inl h \<Rightarrow> Inl h
     | Inr s1 \<Rightarrow> Inr (s1\<lparr>widgets := []\<rparr>))"

definition barlib_destroy :: "gstate \<Rightarrow> gstate" where
  "barlib_destroy s =
    (let s1 = emit s [Ev_barlib_destroy]
     in case barlib_dlhandle s1 of Some h \<Rightarrow> dlclose s1 h | None \<Rightarrow> s1)"

definition sepstate_maybe_destroy ::
  "lua_env \<Rightarrow> call_outcome \<Rightarrow> gstate \<Rightarrow> (halt \<times> gstate) + gstate" where
  "sepstate_maybe_destroy env fin s =
    (case sepstate_L s of
       None \<Rightarrow> Inr s
     | Some sl \<Rightarrow> lua_close env s fin)"

definition map_destroy :: "gstate \<Rightarrow> gstate" where
  "map_destroy s = s\<lparr>map_st := (map_st s)\<lparr>entries := []\<rparr>\<rparr>"

definition main_cleanup ::
  "lua_env \<Rightarrow> main_ext \<Rightarrow> (string \<times> widget_ext) list \<Rightarrow> gstate \<Rightarrow> bool \<Rightarrow> int \<Rightarrow>
   halt \<times> gstate" where
  "main_cleanup env mx files s barlib_inited ret =
    (case widgets_destroy env files s of
       Inl h \<Rightarrow> h
     | Inr s1 \<Rightarrow>
         (let s2 = (if barlib_inited then barlib_destroy s1 else s1)
          in case sepstate_maybe_destroy env (m_sep_finalizers mx) s2 of
               Inl h \<Rightarrow> h
             | Inr s3 \<Rightarrow> (Main_returned ret, map_destroy s3)))"

text \<open>
  The statement of \<^verbatim>\<open>main\<close> that registers the bar driver's functions in the separate
  interpreter, if there is one.
\<close>

definition main_register_sepstate :: "main_ext \<Rightarrow> gstate \<Rightarrow> (halt \<times> gstate) + gstate" where
  "main_register_sepstate mx s =
    (case sepstate_L s of
       None \<Rightarrow> Inr s
     | Some sl \<Rightarrow>
         (case register_funcs (m_regfuncs_sep mx) s sl None of
            Inl h \<Rightarrow> Inl h
          | Inr sl' \<Rightarrow> Inr (s\<lparr>sepstate_L := Some sl'\<rparr>)))"

definition main ::
  "config \<Rightarrow> dl_env \<Rightarrow> lua_env \<Rightarrow> main_ext \<Rightarrow> cli_opt list \<Rightarrow> (string \<times> widget_ext) list \<Rightarrow>
   halt \<times> gstate" where
  "main cfg dl env mx opts files =
    (case parse_args cli_args_init opts of
       Inl h \<Rightarrow> (h, gstate_init)
     | Inr None \<Rightarrow> main_cleanup env mx files gstate_init False EXIT_FAILURE
     | Inr (Some a) \<Rightarrow>
       (case barlib_name a of
          None \<Rightarrow> main_cleanup env mx files gstate_init False EXIT_FAILURE
        | Some bname \<Rightarrow>
          (case widgets_init cfg dl env gstate_init (m_raw mx) files of
             Inl h \<Rightarrow> h
           | Inr s1 \<Rightarrow>
             (case barlib_init_by_name cfg dl (m_barlib mx) s1 bname (barlib_args a) of
                Inl h \<Rightarrow> h
              | Inr (r, s2) \<Rightarrow>
                  if \<not> r then main_cleanup env mx files s2 False EXIT_FAILURE
                  else
                    (case main_register_sepstate mx (s2\<lparr>map_st := map_freeze (map_st s2)\<rparr>) of
                       Inl h \<Rightarrow> h
                     | Inr s4 \<Rightarrow>
                         (case spawn_threads mx s4 [0 ..< length (widgets s4)] [] of
                            Inl h \<Rightarrow> h
                          | Inr (threads, s5) \<Rightarrow>
                              (case run_schedule env s5 threads
                                      (bi_event_watcher (barlib_iface s5)) (m_schedule mx) of
                                 Inl h \<Rightarrow> h
                               | Inr s6 \<Rightarrow>
                                   if eflag a then main_cleanup env mx files s6 True EXIT_SUCCESS
                                   else (Hangs, s6))))))))"


text \<open>
  A way of ending the process from inside a function that \<^verbatim>\<open>main\<close> calls: not a return
  from \<^verbatim>\<open>main\<close>, and \<^verbatim>\<open>fatal_error_reported\<close> always exits with \<^verbatim>\<open>EXIT_FAILURE\<close>.
\<close>

definition inner_halt :: "halt \<Rightarrow> bool" where
  "inner_halt h =
    (case h of
       Main_returned r \<Rightarrow> False
     | Fatal_exit c \<Rightarrow> c = EXIT_FAILURE
     | _ \<Rightarrow> True)"




section \<open>Properties of the log levels\<close>

lemma loglevel_names_eq:
  "loglevel_names =
    [Some ''fatal'', Some ''error'', Some ''warning'', Some ''info'', Some ''verbose'',
     Some ''debug'', Some ''trace'']"
  by (simp add: loglevel_names_def designated_def loglevel_names_init_def
      LUASTATUS_LOG_FATAL_def LUASTATUS_LOG_ERR_def LUASTATUS_LOG_WARN_def
      LUASTATUS_LOG_INFO_def LUASTATUS_LOG_VERBOSE_def LUASTATUS_LOG_DEBUG_def
      LUASTATUS_LOG_TRACE_def upt_rec)

lemma loglevel_fromstr_cases:
  "loglevel_fromstr str =
    (if str = ''fatal'' then Inr 0 else if str = ''error'' then Inr 1
     else if str = ''warning'' then Inr 2 else if str = ''info'' then Inr 3
     else if str = ''verbose'' then Inr 4 else if str = ''debug'' then Inr 5
     else if str = ''trace'' then Inr 6 else Inr LUASTATUS_LOG_LAST)"
  unfolding loglevel_fromstr_def
  by (simp add: loglevel_fromstr_from.simps [of _ str] loglevel_names_eq)

text \<open>
  Claim C9. Looking a log level's name up gives the level back: for each of the seven
  levels, the name table has a name at the level's index and \<open>loglevel_fromstr\<close> of that
  name returns the level. A string that is no entry of the name table gives
  \<open>LUASTATUS_LOG_LAST\<close>. In neither case does the assertion of the loop fail.
\<close>

theorem loglevel_fromstr_roundtrip:
  "(\<forall>l \<in> set loglevels.
      \<exists>name. loglevel_names ! l = Some name \<and> loglevel_fromstr name = Inr l)
   \<and> (\<forall>str. Some str \<notin> set loglevel_names \<longrightarrow>
         loglevel_fromstr str = Inr LUASTATUS_LOG_LAST)"
  by (simp add: loglevel_fromstr_cases loglevel_names_eq loglevels_def
      LUASTATUS_LOG_FATAL_def LUASTATUS_LOG_ERR_def LUASTATUS_LOG_WARN_def
      LUASTATUS_LOG_INFO_def LUASTATUS_LOG_VERBOSE_def LUASTATUS_LOG_DEBUG_def
      LUASTATUS_LOG_TRACE_def)

theorem loglevel_fromstr_roundtrip_witness:
  "LUASTATUS_LOG_DEBUG \<in> set loglevels
   \<and> loglevel_names ! LUASTATUS_LOG_DEBUG = Some ''debug''
   \<and> loglevel_fromstr ''debug'' = Inr LUASTATUS_LOG_DEBUG
   \<and> Some ''loud'' \<notin> set loglevel_names
   \<and> loglevel_fromstr ''loud'' = Inr LUASTATUS_LOG_LAST"
proof -
  have m: "LUASTATUS_LOG_DEBUG \<in> set loglevels"
    by (simp add: loglevels_def)
  have n: "Some ''loud'' \<notin> set loglevel_names"
    by (simp add: loglevel_names_eq)
  have t: "loglevel_names ! LUASTATUS_LOG_DEBUG = Some ''debug''"
    by (simp add: loglevel_names_eq LUASTATUS_LOG_DEBUG_def)
  from loglevel_fromstr_roundtrip m
  obtain name where "loglevel_names ! LUASTATUS_LOG_DEBUG = Some name"
    and "loglevel_fromstr name = Inr LUASTATUS_LOG_DEBUG"
    by blast
  with t have "loglevel_fromstr ''debug'' = Inr LUASTATUS_LOG_DEBUG"
    by simp
  moreover from loglevel_fromstr_roundtrip n
  have "loglevel_fromstr ''loud'' = Inr LUASTATUS_LOG_LAST"
    by blast
  ultimately show ?thesis using m n t by simp
qed

section \<open>Properties of the map\<close>

text \<open>
  Claim C4. Once the freeze flag is set, \<open>map_get\<close> aborts the process for every key,
  whatever the entries are: it does not return and hands out no entry. This holds for
  any state with the flag set, and so for the state \<open>main\<close> makes by freezing the map,
  however many entries the calls before the freeze have created, the key asked for
  being among them or not.
\<close>

theorem map_get_frozen:
  "(frozen s \<longrightarrow> map_get s k = Inl Aborted)
   \<and> map_get (map_freeze s) k = Inl Aborted
   \<and> (\<forall>s'. map_run map_init ops = Inr s' \<longrightarrow> map_get (map_freeze s') k = Inl Aborted)"
  by (simp add: map_get_def map_freeze_def)

lemma map_find_Some: "map_find m k es = Some e \<Longrightarrow> e \<in> set es \<and> key (m e) = k"
  by (induction es) (auto split: if_splits)

lemma map_find_None: "map_find m k es = None \<longleftrightarrow> k \<notin> set (map (\<lambda>e. key (m e)) es)"
  by (induction es) auto

lemma map_find_upd: "e \<notin> set es \<Longrightarrow> map_find (m(e := x)) k es = map_find m k es"
  by (induction es) auto

lemma map_find_val: "map_find (m(p := (m p)\<lparr>val := v\<rparr>)) k es = map_find m k es"
  by (induction es) auto

lemma map_find_append:
  "map_find m k (es @ es') =
    (case map_find m k es of Some e \<Rightarrow> Some e | None \<Rightarrow> map_find m k es')"
  by (induction es) auto

lemma map_keys_write: "map_keys (map_write s p v) = map_keys s"
  by (simp add: map_keys_def map_write_def)

lemma map_wf_write: "map_wf (map_write s p v) = map_wf s"
  by (simp add: map_wf_def map_write_def)

lemma map_find_write:
  "map_find (mem (map_write s p v)) k (entries (map_write s p v)) =
   map_find (mem s) k (entries s)"
  by (simp add: map_write_def map_find_val)

lemma brk_not_entry: "map_wf s \<Longrightarrow> brk s \<notin> set (entries s)"
  by (auto simp: map_wf_def list_all_iff)

lemma map_get_found:
  "\<not> frozen s \<Longrightarrow> map_find (mem s) k (entries s) = Some e \<Longrightarrow> map_get s k = Inr (e, s)"
  by (simp add: map_get_def)

lemma map_get_new:
  "\<not> frozen s \<Longrightarrow> map_find (mem s) k (entries s) = None \<Longrightarrow>
   map_get s k =
     Inr (brk s, s\<lparr>brk := Suc (brk s), mem := (mem s)(brk s := \<lparr>val = NULL, key = k\<rparr>),
                    entries := entries s @ [brk s]\<rparr>)"
  by (simp add: map_get_def ls_xmalloc_def)

text \<open>While the map is not frozen, \<open>map_get\<close> returns.\<close>

lemma map_get_returns: "\<not> frozen s \<Longrightarrow> \<exists>p s'. map_get s k = Inr (p, s')"
  by (cases "map_find (mem s) k (entries s)") (simp_all add: map_get_found map_get_new)

lemma map_get_wf:
  assumes "map_wf s" and "map_get s k = Inr (p, s')"
  shows "map_wf s'"
proof (cases "map_find (mem s) k (entries s)")
  case None
  with assms show ?thesis
    by (auto simp: map_get_def ls_xmalloc_def map_wf_def list_all_iff less_Suc_eq
        split: if_splits)
next
  case (Some e)
  with assms show ?thesis
    by (auto simp: map_get_def split: if_splits)
qed

lemma map_get_not_frozen:
  "map_get s k = Inr (p, s') \<Longrightarrow> \<not> frozen s \<and> \<not> frozen s'"
  by (auto simp: map_get_def ls_xmalloc_def split: if_splits option.splits)

lemma map_get_keeps:
  assumes "map_wf s" and "map_find (mem s) k (entries s) = Some e"
    and "map_get s k' = Inr (p, s')"
  shows "map_find (mem s') k (entries s') = Some e"
proof (cases "map_find (mem s) k' (entries s)")
  case None
  with assms show ?thesis
    by (auto simp: map_get_def ls_xmalloc_def map_find_append map_find_upd brk_not_entry
        split: if_splits)
next
  case (Some e')
  with assms show ?thesis
    by (auto simp: map_get_def split: if_splits)
qed

lemma map_get_self:
  assumes "map_wf s" and "map_get s k = Inr (p, s')"
  shows "map_find (mem s') k (entries s') = Some p"
proof (cases "map_find (mem s) k (entries s)")
  case None
  with assms show ?thesis
    by (auto simp: map_get_def ls_xmalloc_def map_find_append map_find_upd brk_not_entry
        split: if_splits)
next
  case (Some e')
  with assms show ?thesis
    by (auto simp: map_get_def split: if_splits)
qed

lemma map_get_keys:
  assumes "map_wf s" and "map_get s k = Inr (p, s')"
  shows "map_keys s' = (if k \<in> set (map_keys s) then map_keys s else map_keys s @ [k])"
proof (cases "map_find (mem s) k (entries s)")
  case None
  then have "k \<notin> set (map_keys s)"
    by (simp add: map_find_None map_keys_def)
  moreover have
    "map (\<lambda>e. key (if e = brk s then \<lparr>val = NULL, key = k\<rparr> else mem s e)) (entries s)
      = map (\<lambda>e. key (mem s e)) (entries s)"
    using brk_not_entry [OF assms(1)] by (auto intro!: map_cong)
  ultimately show ?thesis
    using assms None
    by (auto simp: map_get_def ls_xmalloc_def map_keys_def split: if_splits)
next
  case (Some e')
  then have "k \<in> set (map_keys s)"
    using map_find_None [of "mem s" k "entries s"] by (simp add: map_keys_def)
  with assms Some show ?thesis
    by (auto simp: map_get_def split: if_splits)
qed

lemma map_inv_init: "map_inv map_init"
  by (simp add: map_inv_def map_wf_def map_keys_def map_init_def)

lemma map_inv_get:
  assumes "map_inv s" and "map_get s k = Inr (p, s')"
  shows "map_inv s'"
proof -
  have w: "map_wf s" and d: "distinct (map_keys s)"
    using assms(1) by (simp_all add: map_inv_def)
  have "distinct (map_keys s')"
    using d by (simp add: map_get_keys [OF w assms(2)])
  then show ?thesis
    using map_get_wf [OF w assms(2)] map_get_not_frozen [OF assms(2)]
    by (simp add: map_inv_def)
qed

lemma map_inv_write: "map_inv s \<Longrightarrow> map_inv (map_write s p' v)"
  by (simp add: map_inv_def map_wf_write map_keys_write) (simp add: map_write_def)

lemma map_run_inv: "map_inv s \<Longrightarrow> map_run s ops = Inr s' \<Longrightarrow> map_inv s'"
proof (induction ops arbitrary: s)
  case Nil
  then show ?case by simp
next
  case (Cons op ops)
  show ?case
  proof (cases op)
    case (Op_get k')
    with Cons.prems(2) obtain p s1 where g: "map_get s k' = Inr (p, s1)"
      and r: "map_run s1 ops = Inr s'"
      by (auto split: sum.splits)
    show ?thesis using Cons.IH [OF map_inv_get [OF Cons.prems(1) g] r] .
  next
    case (Op_write p v)
    with Cons.prems(2) have r: "map_run (map_write s p v) ops = Inr s'" by simp
    show ?thesis using Cons.IH [OF map_inv_write [OF Cons.prems(1)] r] .
  qed
qed

text \<open>Any sequence of calls and writes on a map that is not frozen runs to its end.\<close>

lemma map_run_returns: "map_inv s \<Longrightarrow> \<exists>s'. map_run s ops = Inr s'"
proof (induction ops arbitrary: s)
  case Nil
  then show ?case by simp
next
  case (Cons op ops)
  show ?case
  proof (cases op)
    case (Op_get k')
    from Cons.prems obtain p s1 where g: "map_get s k' = Inr (p, s1)"
      using map_get_returns [of s k'] by (auto simp: map_inv_def)
    from Cons.IH [OF map_inv_get [OF Cons.prems g]] g Op_get show ?thesis by simp
  next
    case (Op_write p v)
    from Cons.IH [OF map_inv_write [OF Cons.prems]] Op_write show ?thesis by simp
  qed
qed

lemma map_run_keeps:
  "map_inv s \<Longrightarrow> map_find (mem s) k (entries s) = Some e \<Longrightarrow> map_run s ops = Inr s' \<Longrightarrow>
   map_find (mem s') k (entries s') = Some e"
proof (induction ops arbitrary: s)
  case Nil
  then show ?case by simp
next
  case (Cons op ops)
  show ?case
  proof (cases op)
    case (Op_get k')
    with Cons.prems(3) obtain p s1 where g: "map_get s k' = Inr (p, s1)"
      and r: "map_run s1 ops = Inr s'"
      by (auto split: sum.splits)
    have "map_inv s1" using map_inv_get [OF Cons.prems(1) g] .
    moreover have "map_find (mem s1) k (entries s1) = Some e"
      using map_get_keeps [OF _ Cons.prems(2) g] Cons.prems(1) by (simp add: map_inv_def)
    ultimately show ?thesis using Cons.IH r by blast
  next
    case (Op_write p v)
    with Cons.prems(3) have r: "map_run (map_write s p v) ops = Inr s'" by simp
    show ?thesis
      using Cons.IH [OF map_inv_write [OF Cons.prems(1)] _ r] Cons.prems(2)
      by (simp add: map_find_write)
  qed
qed

text \<open>
  Claim C5. Before the freeze \<open>map_get\<close> is get-or-create and keeps the keys unique.
  Take the map in any state \<open>s\<close> reached from the empty map by calls of \<open>map_get\<close> and
  writes through value slots, and let \<open>map_get\<close> with key \<open>k\<close> return the pointer \<open>p\<close>.
  If \<open>k\<close> was not a key yet, exactly one entry was appended, at the fresh address \<open>p\<close>,
  with value \<open>NULL\<close> and key \<open>k\<close>; if it was, the map is unchanged. After any further
  calls and writes, \<open>map_get\<close> with key \<open>k\<close> returns the same pointer \<open>p\<close> and leaves the
  map as it is (no entry is created). The keys are pairwise different throughout.
\<close>

theorem map_get_get_or_create:
  assumes "map_run map_init ops = Inr s"
    and "map_get s k = Inr (p, s1)"
    and "map_run s1 ops' = Inr s2"
  shows "map_get s2 k = Inr (p, s2)
    \<and> (if k \<in> set (map_keys s) then s1 = s
       else entries s1 = entries s @ [p] \<and> p \<notin> set (entries s)
            \<and> mem s1 p = \<lparr>val = NULL, key = k\<rparr>)
    \<and> distinct (map_keys s) \<and> distinct (map_keys s1) \<and> distinct (map_keys s2)"
proof -
  have i: "map_inv s" using map_run_inv [OF map_inv_init assms(1)] .
  have i1: "map_inv s1" using map_inv_get [OF i assms(2)] .
  have i2: "map_inv s2" using map_run_inv [OF i1 assms(3)] .
  have w: "map_wf s" and nf: "\<not> frozen s" using i by (simp_all add: map_inv_def)
  have "map_find (mem s1) k (entries s1) = Some p"
    using map_get_self [OF w assms(2)] .
  then have "map_find (mem s2) k (entries s2) = Some p"
    using map_run_keeps [OF i1 _ assms(3)] by simp
  then have a: "map_get s2 k = Inr (p, s2)"
    using i2 by (simp add: map_get_found map_inv_def)
  have b: "if k \<in> set (map_keys s) then s1 = s
       else entries s1 = entries s @ [p] \<and> p \<notin> set (entries s)
            \<and> mem s1 p = \<lparr>val = NULL, key = k\<rparr>"
  proof (cases "map_find (mem s) k (entries s)")
    case None
    then have "k \<notin> set (map_keys s)" by (simp add: map_find_None map_keys_def)
    then show ?thesis
      using assms(2) map_get_new [OF nf None] brk_not_entry [OF w] by auto
  next
    case (Some e)
    then have "k \<in> set (map_keys s)"
      using map_find_None [of "mem s" k "entries s"] by (simp add: map_keys_def)
    then show ?thesis using assms(2) map_get_found [OF nf Some] by simp
  qed
  show ?thesis using a b i i1 i2 by (simp add: map_inv_def)
qed

theorem map_get_frozen_witness:
  "frozen (map_freeze map_init) \<and> map_get (map_freeze map_init) ''k'' = Inl Aborted
   \<and> (\<exists>s'. map_run map_init [Op_get ''a'', Op_get ''k''] = Inr s'
          \<and> map_keys s' = [''a'', ''k'']
          \<and> map_get (map_freeze s') ''k'' = Inl Aborted)"
proof -
  have f: "frozen (map_freeze map_init)" by (simp add: map_freeze_def)
  have r: "\<exists>s'. map_run map_init [Op_get ''a'', Op_get ''k''] = Inr s'
      \<and> map_keys s' = [''a'', ''k'']"
    by (simp add: map_get_def map_init_def ls_xmalloc_def map_keys_def)
  show ?thesis
    using map_get_frozen [of "map_freeze map_init" "''k''" "[Op_get ''a'', Op_get ''k'']"] f r
    by blast
qed

theorem map_get_get_or_create_witness:
  "\<exists>s p s1 s2.
     map_run map_init [Op_get ''a''] = Inr s
     \<and> map_get s ''b'' = Inr (p, s1)
     \<and> map_run s1 [Op_get ''c'', Op_write p 5, Op_get ''a''] = Inr s2
     \<and> map_get s2 ''b'' = Inr (p, s2)
     \<and> ''b'' \<notin> set (map_keys s)
     \<and> entries s1 = entries s @ [p]"
proof -
  obtain s where 1: "map_run map_init [Op_get ''a''] = Inr s"
    using map_run_returns [OF map_inv_init] by blast
  have i: "map_inv s" using map_run_inv [OF map_inv_init 1] .
  have k: "''b'' \<notin> set (map_keys s)"
    using 1 by (auto simp: map_get_def map_init_def ls_xmalloc_def map_keys_def)
  obtain p s1 where 2: "map_get s ''b'' = Inr (p, s1)"
    using map_get_returns [of s "''b''"] i by (auto simp: map_inv_def)
  obtain s2 where 3: "map_run s1 [Op_get ''c'', Op_write p 5, Op_get ''a''] = Inr s2"
    using map_run_returns [OF map_inv_get [OF i 2]] by blast
  from map_get_get_or_create [OF 1 2 3] k 1 2 3 show ?thesis
    by auto
qed

section \<open>Properties of module loading\<close>

lemma plugin_load_cases:
  "plugin_load cfg dl s p fname nm =
    (case dlopen_result dl fname of
       None \<Rightarrow> (False, p\<lparr>dlhandle := None\<rparr>, s)
     | Some h \<Rightarrow>
         if dlsym_int dl h ''LUASTATUS_PLUGIN_LUA_VERSION_NUM'' = Some (LUA_VERSION_NUM cfg)
            \<and> dlsym_plugin_iface dl h ''luastatus_plugin_iface_v1'' \<noteq> None
         then (True,
               p\<lparr>dlhandle := Some h,
                  iface := the (dlsym_plugin_iface dl h ''luastatus_plugin_iface_v1''),
                  name := nm\<rparr>,
               s\<lparr>trace := trace s @ [Ev_dlopen h], handles := h # handles s\<rparr>)
         else (False, p\<lparr>dlhandle := Some h\<rparr>,
               s\<lparr>trace := trace s @ [Ev_dlopen h, Ev_dlclose h], handles := handles s\<rparr>))"
  by (auto simp: plugin_load_def plugin_load_error_def dlopen_def dlclose_def emit_def Let_def
      split: option.splits)

lemma barlib_init_cases:
  "barlib_init cfg dl ext s fname opts =
    (case dlopen_result dl fname of
       None \<Rightarrow> Inr (False, s\<lparr>barlib_dlhandle := None\<rparr>)
     | Some h \<Rightarrow>
         if dlsym_int dl h ''LUASTATUS_BARLIB_LUA_VERSION_NUM'' = Some (LUA_VERSION_NUM cfg)
            \<and> dlsym_barlib_iface dl h ''luastatus_barlib_iface_v1'' \<noteq> None
         then
           (let s3 = s\<lparr>barlib_dlhandle := Some h, trace := trace s @ [Ev_dlopen h],
                       handles := h # handles s,
                       barlib_iface := the (dlsym_barlib_iface dl h ''luastatus_barlib_iface_v1'')\<rparr>
            in case map_run (map_st s) (bl_init_map ext) of
              Inl hl \<Rightarrow> Inl (hl, s3)
            | Inr m \<Rightarrow>
                if bl_init_ret ext = LUASTATUS_ERR
                then Inr (False, s3\<lparr>map_st := m, trace := trace s @ [Ev_dlopen h, Ev_dlclose h],
                                     handles := handles s\<rparr>)
                else Inr (True, s3\<lparr>map_st := m\<rparr>))
         else Inr (False, s\<lparr>barlib_dlhandle := Some h,
                     trace := trace s @ [Ev_dlopen h, Ev_dlclose h], handles := handles s\<rparr>))"
  by (auto simp: barlib_init_def barlib_init_error_def dlopen_def dlclose_def emit_def Let_def
      split: option.splits sum.splits)

lemma cstring_id: "CHR 0x00 \<notin> set str \<Longrightarrow> cstring str = str"
  by (auto simp: cstring_def)

lemma cstring_append_nul:
  "CHR 0x00 \<notin> set str \<Longrightarrow> cstring (str @ CHR 0x00 # rest) = str"
  by (induction str) (auto simp: cstring_def)

lemma ASPRINTF_plugin:
  assumes "CHR 0x00 \<notin> set d" and "CHR 0x00 \<notin> set nm"
  shows "ASPRINTF ''%s/plugin-%s.so'' [Arg_s d, Arg_s nm] = d @ ''/plugin-'' @ nm @ ''.so''"
proof -
  have "format (''%s/plugin-%s.so'' @ ''%c'') ([Arg_s d, Arg_s nm] @ [Arg_c (CHR 0x00)])
      = (d @ ''/plugin-'' @ nm @ ''.so'') @ CHR 0x00 # []"
    using assms by (simp add: cstring_id)
  moreover have "CHR 0x00 \<notin> set (d @ ''/plugin-'' @ nm @ ''.so'')"
    using assms by simp
  ultimately show ?thesis
    unfolding ASPRINTF_def using cstring_append_nul by metis
qed

lemma ASPRINTF_barlib:
  assumes "CHR 0x00 \<notin> set d" and "CHR 0x00 \<notin> set nm"
  shows "ASPRINTF ''%s/barlib-%s.so'' [Arg_s d, Arg_s nm] = d @ ''/barlib-'' @ nm @ ''.so''"
proof -
  have "format (''%s/barlib-%s.so'' @ ''%c'') ([Arg_s d, Arg_s nm] @ [Arg_c (CHR 0x00)])
      = (d @ ''/barlib-'' @ nm @ ''.so'') @ CHR 0x00 # []"
    using assms by (simp add: cstring_id)
  moreover have "CHR 0x00 \<notin> set (d @ ''/barlib-'' @ nm @ ''.so'')"
    using assms by simp
  ultimately show ?thesis
    unfolding ASPRINTF_def using cstring_append_nul by metis
qed

text \<open>
  Claim C7. A module name that contains a \<open>/\<close> is used as it is as the path of the file
  to load. Any other name is loaded from the path made of the installation directory of
  its kind, \<open>/plugin-\<close> or \<open>/barlib-\<close>, the name and \<open>.so\<close>: loading by name gives
  exactly what loading that path gives. Names and directories are C strings, so they hold
  no zero byte.
\<close>

theorem load_by_name_path:
  assumes "CHR 0x00 \<notin> set nm"
    and "CHR 0x00 \<notin> set (LUASTATUS_PLUGINS_DIR cfg)"
    and "CHR 0x00 \<notin> set (LUASTATUS_BARLIBS_DIR cfg)"
  shows "(CHR ''/'' \<in> set nm \<longrightarrow>
            plugin_load_by_name cfg dl s p nm = plugin_load cfg dl s p nm nm
          \<and> barlib_init_by_name cfg dl ext s nm opts = barlib_init cfg dl ext s nm opts)
       \<and> (CHR ''/'' \<notin> set nm \<longrightarrow>
            plugin_load_by_name cfg dl s p nm =
              plugin_load cfg dl s p (LUASTATUS_PLUGINS_DIR cfg @ ''/plugin-'' @ nm @ ''.so'') nm
          \<and> barlib_init_by_name cfg dl ext s nm opts =
              barlib_init cfg dl ext s (LUASTATUS_BARLIBS_DIR cfg @ ''/barlib-'' @ nm @ ''.so'') opts)"
  using assms
  by (simp add: plugin_load_by_name_def barlib_init_by_name_def strchr_def cstring_id
      ASPRINTF_plugin ASPRINTF_barlib)

text \<open>
  Claim C6. Loading a plugin or the bar driver fails when the shared object cannot be
  opened, when the Lua version symbol is missing or differs from the host's
  \<open>LUA_VERSION_NUM\<close>, or when the interface symbol is missing. Whenever loading fails, the
  set of open handles is what it was before the call: if the object was opened, the steps
  taken are its opening followed by its closing, and nothing when it could not be opened.
\<close>

theorem module_load_failure:
  "(dlopen_result dl fname = None \<longrightarrow>
      plugin_load cfg dl s p fname nm = (False, p\<lparr>dlhandle := None\<rparr>, s)
    \<and> barlib_init cfg dl ext s fname opts = Inr (False, s\<lparr>barlib_dlhandle := None\<rparr>))
   \<and> (\<forall>h. dlopen_result dl fname = Some h
          \<and> (dlsym_int dl h ''LUASTATUS_PLUGIN_LUA_VERSION_NUM'' \<noteq> Some (LUA_VERSION_NUM cfg)
             \<or> dlsym_plugin_iface dl h ''luastatus_plugin_iface_v1'' = None) \<longrightarrow>
        (\<exists>s'. plugin_load cfg dl s p fname nm = (False, p\<lparr>dlhandle := Some h\<rparr>, s')
            \<and> handles s' = handles s
            \<and> trace s' = trace s @ [Ev_dlopen h, Ev_dlclose h]))
   \<and> (\<forall>h. dlopen_result dl fname = Some h
          \<and> (dlsym_int dl h ''LUASTATUS_BARLIB_LUA_VERSION_NUM'' \<noteq> Some (LUA_VERSION_NUM cfg)
             \<or> dlsym_barlib_iface dl h ''luastatus_barlib_iface_v1'' = None) \<longrightarrow>
        (\<exists>s'. barlib_init cfg dl ext s fname opts = Inr (False, s')
            \<and> handles s' = handles s
            \<and> trace s' = trace s @ [Ev_dlopen h, Ev_dlclose h]))
   \<and> (\<forall>p' s'. plugin_load cfg dl s p fname nm = (False, p', s') \<longrightarrow>
        handles s' = handles s
        \<and> trace s' = trace s @ (case dlopen_result dl fname of
                                   None \<Rightarrow> [] | Some h \<Rightarrow> [Ev_dlopen h, Ev_dlclose h]))
   \<and> (\<forall>s'. barlib_init cfg dl ext s fname opts = Inr (False, s') \<longrightarrow>
        handles s' = handles s
        \<and> trace s' = trace s @ (case dlopen_result dl fname of
                                   None \<Rightarrow> [] | Some h \<Rightarrow> [Ev_dlopen h, Ev_dlclose h]))"
proof (intro conjI allI impI)
  assume "dlopen_result dl fname = None"
  then show "plugin_load cfg dl s p fname nm = (False, p\<lparr>dlhandle := None\<rparr>, s)"
    by (simp add: plugin_load_cases)
next
  assume "dlopen_result dl fname = None"
  then show "barlib_init cfg dl ext s fname opts = Inr (False, s\<lparr>barlib_dlhandle := None\<rparr>)"
    by (simp add: barlib_init_cases)
next
  fix h
  assume "dlopen_result dl fname = Some h
          \<and> (dlsym_int dl h ''LUASTATUS_PLUGIN_LUA_VERSION_NUM'' \<noteq> Some (LUA_VERSION_NUM cfg)
             \<or> dlsym_plugin_iface dl h ''luastatus_plugin_iface_v1'' = None)"
  then show "\<exists>s'. plugin_load cfg dl s p fname nm = (False, p\<lparr>dlhandle := Some h\<rparr>, s')
            \<and> handles s' = handles s
            \<and> trace s' = trace s @ [Ev_dlopen h, Ev_dlclose h]"
    by (auto simp: plugin_load_cases)
next
  fix h
  assume "dlopen_result dl fname = Some h
          \<and> (dlsym_int dl h ''LUASTATUS_BARLIB_LUA_VERSION_NUM'' \<noteq> Some (LUA_VERSION_NUM cfg)
             \<or> dlsym_barlib_iface dl h ''luastatus_barlib_iface_v1'' = None)"
  then show "\<exists>s'. barlib_init cfg dl ext s fname opts = Inr (False, s')
            \<and> handles s' = handles s
            \<and> trace s' = trace s @ [Ev_dlopen h, Ev_dlclose h]"
    by (auto simp: barlib_init_cases)
next
  fix p' s'
  assume "plugin_load cfg dl s p fname nm = (False, p', s')"
  then show "handles s' = handles s" 
    by (auto simp: plugin_load_cases split: option.splits if_splits)
next
  fix p' s'
  assume "plugin_load cfg dl s p fname nm = (False, p', s')"
  then show "trace s' = trace s @ (case dlopen_result dl fname of
                                   None \<Rightarrow> [] | Some h \<Rightarrow> [Ev_dlopen h, Ev_dlclose h])" 
    by (auto simp: plugin_load_cases split: option.splits if_splits)
next
  fix s'
  assume "barlib_init cfg dl ext s fname opts = Inr (False, s')"
  then show "handles s' = handles s"
    by (auto simp: barlib_init_cases Let_def split: option.splits if_splits sum.splits)
next
  fix s'
  assume "barlib_init cfg dl ext s fname opts = Inr (False, s')"
  then show "trace s' = trace s @ (case dlopen_result dl fname of
                                   None \<Rightarrow> [] | Some h \<Rightarrow> [Ev_dlopen h, Ev_dlclose h])"
    by (auto simp: barlib_init_cases Let_def split: option.splits if_splits sum.splits)
qed

theorem load_by_name_path_witness:
  "plugin_load_by_name example_config example_dl gstate_init example_plugin ''udev'' =
     plugin_load example_config example_dl gstate_init example_plugin
       ''/usr/lib/luastatus/plugins/plugin-udev.so'' ''udev''
   \<and> fst (plugin_load_by_name example_config example_dl gstate_init example_plugin ''udev'')
   \<and> barlib_init_by_name example_config example_dl example_barlib_ext gstate_init ''i3'' [] =
     barlib_init example_config example_dl example_barlib_ext gstate_init
       ''/usr/lib/luastatus/barlibs/barlib-i3.so'' []
   \<and> plugin_load_by_name example_config example_dl gstate_init example_plugin ''./old.so'' =
     plugin_load example_config example_dl gstate_init example_plugin ''./old.so'' ''./old.so''"
proof -
  have d: "CHR 0x00 \<notin> set (LUASTATUS_PLUGINS_DIR example_config)"
    "CHR 0x00 \<notin> set (LUASTATUS_BARLIBS_DIR example_config)"
    by (simp_all add: example_config_def)
  have u: "CHR 0x00 \<notin> set ''udev''" "CHR ''/'' \<notin> set ''udev''" by simp_all
  have i: "CHR 0x00 \<notin> set ''i3''" "CHR ''/'' \<notin> set ''i3''" by simp_all
  have o: "CHR 0x00 \<notin> set ''./old.so''" "CHR ''/'' \<in> set ''./old.so''" by simp_all
  have f: "fst (plugin_load example_config example_dl gstate_init example_plugin
       ''/usr/lib/luastatus/plugins/plugin-udev.so'' ''udev'')"
    by (simp add: plugin_load_cases example_dl_def example_config_def)
  show ?thesis
    using load_by_name_path [OF u(1) d, of example_dl gstate_init example_plugin]
      load_by_name_path [OF i(1) d, of _ _ _ example_barlib_ext "[]"]
      load_by_name_path [OF o(1) d, of example_dl gstate_init example_plugin] u(2) i(2) o(2) f
    by (simp add: example_config_def)
qed

theorem module_load_failure_witness:
  "dlopen_result example_dl ''./missing.so'' = None
   \<and> plugin_load example_config example_dl gstate_init example_plugin ''./missing.so'' ''m'' =
       (False, example_plugin\<lparr>dlhandle := None\<rparr>, gstate_init)
   \<and> dlopen_result example_dl ''./old.so'' = Some 3
   \<and> dlsym_int example_dl 3 ''LUASTATUS_PLUGIN_LUA_VERSION_NUM'' \<noteq>
       Some (LUA_VERSION_NUM example_config)
   \<and> (\<exists>s'. plugin_load example_config example_dl gstate_init example_plugin ''./old.so'' ''o'' =
             (False, example_plugin\<lparr>dlhandle := Some 3\<rparr>, s')
          \<and> handles s' = handles gstate_init
          \<and> trace s' = trace gstate_init @ [Ev_dlopen 3, Ev_dlclose 3])
   \<and> (\<exists>s'. barlib_init example_config example_dl example_barlib_ext gstate_init ''./old.so'' [] =
             Inr (False, s')
          \<and> handles s' = handles gstate_init
          \<and> trace s' = trace gstate_init @ [Ev_dlopen 3, Ev_dlclose 3])"
proof -
  have a: "dlopen_result example_dl ''./missing.so'' = None"
    by (simp add: example_dl_def)
  have b: "dlopen_result example_dl ''./old.so'' = Some 3"
    by (simp add: example_dl_def)
  have c: "dlsym_int example_dl 3 ''LUASTATUS_PLUGIN_LUA_VERSION_NUM'' \<noteq>
       Some (LUA_VERSION_NUM example_config)"
    "dlsym_int example_dl 3 ''LUASTATUS_BARLIB_LUA_VERSION_NUM'' \<noteq>
       Some (LUA_VERSION_NUM example_config)"
    by (simp_all add: example_dl_def example_config_def)
  note m = module_load_failure [of example_dl "''./missing.so''" example_config gstate_init
      example_plugin "''m''" example_barlib_ext "[]"]
  note n = module_load_failure [of example_dl "''./old.so''" example_config gstate_init
      example_plugin "''o''" example_barlib_ext "[]"]
  from m a have 1: "plugin_load example_config example_dl gstate_init example_plugin
      ''./missing.so'' ''m'' = (False, example_plugin\<lparr>dlhandle := None\<rparr>, gstate_init)"
    by blast
  from n b c(1) have 2: "\<exists>s'. plugin_load example_config example_dl gstate_init example_plugin ''./old.so'' ''o'' =
             (False, example_plugin\<lparr>dlhandle := Some 3\<rparr>, s')
          \<and> handles s' = handles gstate_init
          \<and> trace s' = trace gstate_init @ [Ev_dlopen 3, Ev_dlclose 3]"
    by blast
  from n b c(2) have 3: "\<exists>s'. barlib_init example_config example_dl example_barlib_ext gstate_init ''./old.so'' [] =
             Inr (False, s')
          \<and> handles s' = handles gstate_init
          \<and> trace s' = trace gstate_init @ [Ev_dlopen 3, Ev_dlclose 3]"
    by blast
  show ?thesis using a b c(1) 1 2 3 by blast
qed

section \<open>Properties of the udev plugin's \<open>init\<close>\<close>

lemma init_timeout_cases:
  assumes "opt_subsystem opts \<noteq> Rejected" "opt_devtype opts \<noteq> Rejected"
    "opt_tag opts \<noteq> Rejected" "opt_kernel_events opts \<noteq> Rejected"
    "opt_greet opts \<noteq> Rejected" "opt_timeout opts = Visited n"
  shows "if num_ge_zero n \<and> ls_timespec_is_invalid tu (ls_timespec_from_seconds tu n)
     then init tu True opts = Inr (LUASTATUS_ERR, None)
     else \<exists>p. init tu True opts = Inr (LUASTATUS_OK, Some p)
           \<and> timeout p = (if num_ge_zero n then ls_timespec_from_seconds tu n
                          else ls_timespec_invalid tu)"
  using assms
  by (cases "opt_subsystem opts"; cases "opt_devtype opts"; cases "opt_tag opts";
      cases "opt_kernel_events opts"; cases "opt_greet opts")
     (simp_all add: init_def maybe_visit_def visit_timeout_def Let_def)

text \<open>
  Claim C10. In the udev plugin's \<open>init\<close>, with a numeric \<open>timeout\<close> option \<open>n\<close> (and the
  other options accepted): when \<open>n >= 0\<close> is false, as it is for every negative number,
  \<open>init\<close> succeeds and the timeout field still holds the invalid value it was initialised
  with, since the assignment stands behind the \<open>n >= 0\<close> conjunct. \<open>init\<close> returns
  \<open>LUASTATUS_ERR\<close> exactly when \<open>n >= 0\<close> holds and the timespec converted from \<open>n\<close> is
  invalid; for \<open>n >= 0\<close> with a valid conversion the field holds the converted value.
\<close>

theorem udev_init_timeout:
  assumes "opt_subsystem opts \<noteq> Rejected" and "opt_devtype opts \<noteq> Rejected"
    and "opt_tag opts \<noteq> Rejected" and "opt_kernel_events opts \<noteq> Rejected"
    and "opt_greet opts \<noteq> Rejected" and "opt_timeout opts = Visited n"
  shows "(\<not> num_ge_zero n \<longrightarrow>
            (\<exists>p. init tu True opts = Inr (LUASTATUS_OK, Some p)
                \<and> timeout p = ls_timespec_invalid tu))
       \<and> (init tu True opts = Inr (LUASTATUS_ERR, None) \<longleftrightarrow>
            num_ge_zero n \<and> ls_timespec_is_invalid tu (ls_timespec_from_seconds tu n))
       \<and> (num_ge_zero n \<and> \<not> ls_timespec_is_invalid tu (ls_timespec_from_seconds tu n) \<longrightarrow>
            (\<exists>p. init tu True opts = Inr (LUASTATUS_OK, Some p)
                \<and> timeout p = ls_timespec_from_seconds tu n))"
  using init_timeout_cases [OF assms, of tu]
  by (auto split: if_splits)

theorem udev_init_timeout_witness:
  "\<not> num_ge_zero (Finite (- 5))
   \<and> (\<exists>p. init example_time_utils True (example_udev_opts (Finite (- 5))) =
            Inr (LUASTATUS_OK, Some p)
         \<and> timeout p = ls_timespec_invalid example_time_utils)
   \<and> num_ge_zero (Finite 5000)
   \<and> ls_timespec_is_invalid example_time_utils
        (ls_timespec_from_seconds example_time_utils (Finite 5000))
   \<and> init example_time_utils True (example_udev_opts (Finite 5000)) = Inr (LUASTATUS_ERR, None)
   \<and> init example_time_utils True (example_udev_opts (Finite 5)) \<noteq> Inr (LUASTATUS_ERR, None)"
proof -
  have o: "opt_subsystem (example_udev_opts n) \<noteq> Rejected"
    "opt_devtype (example_udev_opts n) \<noteq> Rejected"
    "opt_tag (example_udev_opts n) \<noteq> Rejected"
    "opt_kernel_events (example_udev_opts n) \<noteq> Rejected"
    "opt_greet (example_udev_opts n) \<noteq> Rejected"
    "opt_timeout (example_udev_opts n) = Visited n" for n
    by (simp_all add: example_udev_opts_def)
  have a: "\<not> num_ge_zero (Finite (- 5))" by simp
  have b: "num_ge_zero (Finite 5000)" by simp
  have c: "ls_timespec_is_invalid example_time_utils
        (ls_timespec_from_seconds example_time_utils (Finite 5000))"
    by (simp add: example_time_utils_def)
  have d: "\<not> ls_timespec_is_invalid example_time_utils
        (ls_timespec_from_seconds example_time_utils (Finite 5))"
    by (simp add: example_time_utils_def)
  show ?thesis
    using udev_init_timeout [OF o, of "Finite (- 5)" example_time_utils]
      udev_init_timeout [OF o, of "Finite 5000" example_time_utils]
      udev_init_timeout [OF o, of "Finite 5" example_time_utils] a b c d
    by blast
qed

section \<open>Properties of the callback bridge\<close>

lemma get_context_emit [simp]: "get_context (emit s es) c = get_context s c"
  by (cases c) (simp_all add: emit_def)

lemma widgets_emit [simp]: "widgets (emit s es) = widgets s"
  by (simp add: emit_def)

lemma trace_emit [simp]: "trace (emit s es) = trace s @ es"
  by (simp add: emit_def)

lemma get_put_context:
  "get_context s c \<noteq> None \<Longrightarrow> get_context (put_context s c ls) c = Some ls"
  by (cases c) (auto split: if_splits)

lemma length_settop [simp]: "lua_gettop (lua_settop ls n) = n"
  by (simp add: lua_gettop_def lua_settop_def)

lemma trace_put [simp]: "trace (put_context s c ls) = trace s"
  by (cases c) simp_all

lemma run_call_state: "run_call env s oc = Inr r \<Longrightarrow> run_call env s' oc = Inr r"
  by (induction oc) (auto simp: l_os_exit_def split: option.splits)

lemma do_lua_call_cases:
  assumes "do_lua_call env s ls nargs nresults oc = Inr (r, ls1, s1)"
  shows "s1 = emit s [Ev_pcall (stack ls ! (length (stack ls) - Suc nargs))
                        (drop (Suc (length (stack ls) - Suc nargs)) (stack ls))]
    \<and> Suc nargs \<le> length (stack ls)
    \<and> (if r then \<exists>vs. run_call env s1 oc = Inr (Inr vs)
            \<and> ls1 = ls\<lparr>stack := take (length (stack ls) - Suc nargs) (stack ls)
                                   @ adjust_results nresults vs\<rparr>
        else \<exists>e v. run_call env s1 oc = Inr (Inl (e, v))
            \<and> ls1 = ls\<lparr>stack := take (length (stack ls) - Suc nargs) (stack ls)\<rparr>)"
  using assms
  by (auto simp: do_lua_call_def lua_pcall_def check_lua_call_def lua_pop_def Let_def
      split: if_splits sum.splits prod.splits option.splits)

lemma length_adjust [simp]: "length (adjust_results n vs) = n"
  by (simp add: adjust_results_def)

lemma do_lua_call_depth:
  assumes "do_lua_call env s ls nargs nresults oc = Inr (r, ls1, s1)"
  shows "lua_gettop ls1 = lua_gettop ls - Suc nargs + (if r then nresults else 0)"
  using do_lua_call_cases [OF assms]
  by (auto simp: lua_gettop_def split: if_splits)

lemma plugin_call_end_depth:
  assumes "plugin_call_end env ext s i = Inr s2"
  shows "context_depth s2 (Ctx_widget i) = Some 1"
proof -
  from assms obtain ls where i: "i < length (widgets s)" and l: "L (widgets s ! i) = Some ls"
    and t: "lua_gettop ls = 3"
    by (auto simp: plugin_call_end_def split: if_splits option.splits)
  from assms i l t obtain r ls1 s1 where d: "do_lua_call env s ls 1 1 (ext_call ext) = Inr (r, ls1, s1)"
    by (auto simp: plugin_call_end_def split: sum.splits)
  have w: "length (widgets s1) = length (widgets s)"
    using do_lua_call_cases [OF d] by simp
  have t1: "lua_gettop ls1 = (if r then 2 else 1)"
    using do_lua_call_depth [OF d] t by simp
  show ?thesis
    using assms i l t d w t1
    by (auto simp: plugin_call_end_def context_depth_def set_error_unlocked_def
        fatal_error_reported_def Let_def
        split: if_splits sum.splits luastatus_ret.splits)
qed

lemma plugin_call_cancel_depth:
  "plugin_call_cancel s i = Inr s2 \<Longrightarrow> context_depth s2 (Ctx_widget i) = Some 1"
  by (auto simp: plugin_call_cancel_def context_depth_def split: if_splits option.splits)

lemma ew_call_end_depth:
  assumes "ew_call_end env ext s i = Inr s2"
  shows "context_depth s2 (widget_event_lua_state i (widgets s ! i)) = Some 1"
proof -
  define c where "c = widget_event_lua_state i (widgets s ! i)"
  from assms obtain ls where i: "i < length (widgets s)" and l: "get_context s c = Some ls"
    and t: "lua_gettop ls = 3"
    by (auto simp: ew_call_end_def c_def Let_def split: if_splits option.splits)
  show ?thesis
  proof (cases "lref_event (widgets s ! i) = LUA_REFNIL")
    case True
    with assms i l t have "s2 = emit (put_context s c (lua_pop ls 2))
        [Ev_unlock (widget_event_L_mtx i (widgets s ! i))]"
      by (simp add: ew_call_end_def c_def Let_def)
    then show ?thesis
      using l t by (simp add: context_depth_def c_def [symmetric] get_put_context
          lua_gettop_def lua_pop_def)
  next
    case False
    with assms i l t obtain r ls1 s1 where
      d: "do_lua_call env s ls 1 0 (ext_call ext) = Inr (r, ls1, s1)"
      by (auto simp: ew_call_end_def c_def Let_def split: sum.splits)
    have g: "get_context s1 c = Some ls"
      using do_lua_call_cases [OF d] l by simp
    have t1: "lua_gettop ls1 = 1"
      using do_lua_call_depth [OF d] t by simp
    have "get_context s2 c = Some ls1"
      using assms i l t d False g
      by (auto simp: ew_call_end_def c_def [symmetric] Let_def set_error_unlocked_def
          fatal_error_reported_def get_put_context split: if_splits)
    then show ?thesis
      using t1 by (simp add: context_depth_def c_def)
  qed
qed

lemma ew_call_cancel_depth:
  "ew_call_cancel s i = Inr s2 \<Longrightarrow>
   context_depth s2 (widget_event_lua_state i (widgets s ! i)) = Some 1"
  by (auto simp: ew_call_cancel_def context_depth_def Let_def get_put_context
      split: if_splits option.splits)

lemma plugin_call_begin_cases:
  assumes "plugin_call_begin s i = Inr (c, s1)"
  shows "c = Ctx_widget i \<and> i < length (widgets s) \<and> context_depth s c = Some 1
    \<and> context_depth s1 c = Some 2
    \<and> widgets s1 = (widgets s)[i := (widgets s1 ! i)]
    \<and> (\<exists>ls. L (widgets s ! i) = Some ls
          \<and> L (widgets s1 ! i) = Some (lua_rawgeti_registry ls (lref_cb (widgets s ! i))))"
  using assms
  by (auto simp: plugin_call_begin_def context_depth_def Let_def lua_gettop_def
      lua_rawgeti_registry_def lua_push_def emit_def
      split: if_splits option.splits)

lemma ew_call_begin_cases:
  assumes "ew_call_begin s i = Inr (c, s1)"
  shows "c = widget_event_lua_state i (widgets s ! i) \<and> i < length (widgets s)
    \<and> context_depth s c = Some 1 \<and> context_depth s1 c = Some 2"
  using assms
  by (auto simp: ew_call_begin_def context_depth_def Let_def lua_gettop_def
      lua_rawgeti_registry_def lua_push_def get_put_context
      split: if_splits option.splits)

lemma returns_to_host_run:
  "returns_to_host env oc \<Longrightarrow> \<exists>r. run_call env s oc = Inr r"
  by (induction oc) (auto simp: l_os_exit_def)

lemma do_lua_call_returns:
  assumes "returns_to_host env oc" and "Suc nargs \<le> lua_gettop ls"
  shows "\<exists>r ls1 s1. do_lua_call env s ls nargs nresults oc = Inr (r, ls1, s1)"
proof -
  obtain r where "run_call env
      (emit s [Ev_pcall (stack ls ! (length (stack ls) - Suc nargs))
                 (drop (Suc (length (stack ls) - Suc nargs)) (stack ls))]) oc = Inr r"
    using returns_to_host_run [OF assms(1)] by blast
  then show ?thesis
    using assms(2)
    by (cases r)
       (auto simp: do_lua_call_def lua_pcall_def check_lua_call_def lua_gettop_def Let_def
        split: prod.splits option.splits)
qed

lemma put_context_length [simp]:
  "length (widgets (put_context s c ls)) = length (widgets s)"
  by (cases c) simp_all

lemma nth_update_field:
  "(\<And>x. f (g x) = f x) \<Longrightarrow> f (xs[j := g (xs ! j)] ! i) = f (xs ! i)"
  by (cases "j < length xs") (auto simp: nth_list_update not_less list_update_beyond)

lemma put_context_sepstate_event [simp]:
  "sepstate_event (widgets (put_context s c ls) ! i) = sepstate_event (widgets s ! i)"
  by (cases c) (simp_all add: nth_update_field [where g = "\<lambda>w. w\<lparr>L := Some ls\<rparr>"])

lemma put_context_lref_event [simp]:
  "lref_event (widgets (put_context s c ls) ! i) = lref_event (widgets s ! i)"
  by (cases c) (simp_all add: nth_update_field [where g = "\<lambda>w. w\<lparr>L := Some ls\<rparr>"])

lemma caller_pushes_length [simp]:
  "length (widgets (caller_pushes s c f)) = length (widgets s)"
  by (simp add: caller_pushes_def split: option.splits)

lemma caller_pushes_sepstate_event [simp]:
  "sepstate_event (widgets (caller_pushes s c f) ! i) = sepstate_event (widgets s ! i)"
  by (simp add: caller_pushes_def split: option.splits)

lemma caller_pushes_lref_event [simp]:
  "lref_event (widgets (caller_pushes s c f) ! i) = lref_event (widgets s ! i)"
  by (simp add: caller_pushes_def split: option.splits)

lemma ew_call_begin_widget:
  assumes "ew_call_begin s i = Inr (c, s1)"
  shows "widget_event_lua_state i (widgets (caller_pushes s1 c f) ! i) = c"
  using assms
  by (auto simp: ew_call_begin_def Let_def widget_event_lua_state_def
      split: if_splits option.splits)

lemma caller_pushes_depth:
  "get_context s c \<noteq> None \<Longrightarrow>
   context_depth (caller_pushes s c f) c = map_option (\<lambda>ls. length (f (stack ls))) (get_context s c)"
  by (auto simp: caller_pushes_def context_depth_def get_put_context lua_gettop_def)

lemma plugin_call_begin_returns:
  "i < length (widgets s) \<Longrightarrow> context_depth s (Ctx_widget i) = Some 1 \<Longrightarrow>
   \<exists>s1. plugin_call_begin s i = Inr (Ctx_widget i, s1)"
  by (auto simp: plugin_call_begin_def context_depth_def Let_def split: option.splits)

lemma ew_call_begin_returns:
  "i < length (widgets s) \<Longrightarrow>
   context_depth s (widget_event_lua_state i (widgets s ! i)) = Some 1 \<Longrightarrow>
   \<exists>s1. ew_call_begin s i = Inr (widget_event_lua_state i (widgets s ! i), s1)"
  by (auto simp: ew_call_begin_def context_depth_def Let_def split: option.splits)

lemma plugin_call_cancel_returns:
  assumes "plugin_call_begin s i = Inr (c, s1)"
  shows "\<exists>s2. plugin_call_cancel (caller_pushes s1 c f) i = Inr s2"
proof -
  from plugin_call_begin_cases [OF assms]
  have c: "c = Ctx_widget i" and i: "i < length (widgets s)"
    and d: "context_depth s1 c = Some 2" by blast+
  from d have g: "get_context s1 c \<noteq> None" by (auto simp: context_depth_def)
  have "context_depth (caller_pushes s1 c f) c \<noteq> None"
    using caller_pushes_depth [OF g, of f] g by auto
  then show ?thesis
    using c by (auto simp: plugin_call_cancel_def context_depth_def split: if_splits)
qed

lemma ew_call_cancel_returns:
  assumes "ew_call_begin s i = Inr (c, s1)"
  shows "\<exists>s2. ew_call_cancel (caller_pushes s1 c f) i = Inr s2"
proof -
  from ew_call_begin_cases [OF assms]
  have i: "i < length (widgets s)" and d: "context_depth s1 c = Some 2" by blast+
  from d have g: "get_context s1 c \<noteq> None" by (auto simp: context_depth_def)
  have n: "context_depth (caller_pushes s1 c f) c \<noteq> None"
    using caller_pushes_depth [OF g, of f] g by auto
  have l: "length (widgets s1) = length (widgets s)"
    using assms by (auto simp: ew_call_begin_def Let_def split: if_splits option.splits)
  show ?thesis
    using n i l ew_call_begin_widget [OF assms, of f]
    by (auto simp: ew_call_cancel_def context_depth_def Let_def)
qed

lemma plugin_call_end_returns:
  assumes "plugin_call_begin s i = Inr (c, s1)"
    and "context_depth (caller_pushes s1 c f) c = Some 3"
    and "returns_to_host env (ext_call ext)"
    and "ext_set_ret ext \<noteq> LUASTATUS_ERR" and "ext_set_error_ret ext \<noteq> LUASTATUS_ERR"
  shows "\<exists>s2. plugin_call_end env ext (caller_pushes s1 c f) i = Inr s2"
proof -
  define s' where "s' = caller_pushes s1 c f"
  from plugin_call_begin_cases [OF assms(1)]
  have c: "c = Ctx_widget i" by simp
  from assms(2) c obtain ls where i: "i < length (widgets s')"
    and l: "L (widgets s' ! i) = Some ls" and t: "lua_gettop ls = 3"
    by (auto simp: context_depth_def s'_def split: if_splits)
  obtain r ls1 s1' where d: "do_lua_call env s' ls 1 1 (ext_call ext) = Inr (r, ls1, s1')"
    using do_lua_call_returns [OF assms(3), of 1 ls s' 1] t by auto
  show ?thesis
    using i l t d assms(4,5)
    by (cases "ext_set_ret ext")
       (auto simp: plugin_call_end_def s'_def [symmetric] Let_def set_error_unlocked_def)
qed

lemma ew_call_end_returns:
  assumes "ew_call_begin s i = Inr (c, s1)"
    and "context_depth (caller_pushes s1 c f) c = Some 3"
    and "returns_to_host env (ext_call ext)"
    and "ext_set_error_ret ext \<noteq> LUASTATUS_ERR"
  shows "\<exists>s2. ew_call_end env ext (caller_pushes s1 c f) i = Inr s2"
proof -
  define s' where "s' = caller_pushes s1 c f"
  have l1: "length (widgets s1) = length (widgets s)"
    using assms(1) by (auto simp: ew_call_begin_def Let_def split: if_splits option.splits)
  from ew_call_begin_cases [OF assms(1)] l1
  have i: "i < length (widgets s')" by (simp add: s'_def)
  have c: "widget_event_lua_state i (widgets s' ! i) = c"
    using ew_call_begin_widget [OF assms(1), of f] by (simp add: s'_def)
  from assms(2) obtain ls where l: "get_context s' c = Some ls" and t: "lua_gettop ls = 3"
    by (auto simp: context_depth_def s'_def)
  obtain r ls1 s1' where d: "do_lua_call env s' ls 1 0 (ext_call ext) = Inr (r, ls1, s1')"
    using do_lua_call_returns [OF assms(3), of 1 ls s' 0] t by auto
  show ?thesis
    using i l t d c assms(4)
    by (auto simp: ew_call_end_def s'_def [symmetric] Let_def set_error_unlocked_def)
qed

lemma plugin_pair_balanced:
  assumes "plugin_call_begin s i = Inr (c, s1)"
    and "plugin_call_end env ext (caller_pushes s1 c f) i = Inr s2
         \<or> plugin_call_cancel (caller_pushes s1 c f) i = Inr s2"
  shows "context_depth s c = Some 1 \<and> context_depth s2 c = Some 1"
  using plugin_call_begin_cases [OF assms(1)] assms(2)
    plugin_call_end_depth [of env ext "caller_pushes s1 c f" i s2]
    plugin_call_cancel_depth [of "caller_pushes s1 c f" i s2]
  by auto

lemma ew_pair_balanced:
  assumes "ew_call_begin s i = Inr (c, s1)"
    and "ew_call_end env ext (caller_pushes s1 c f) i = Inr s2
         \<or> ew_call_cancel (caller_pushes s1 c f) i = Inr s2"
  shows "context_depth s c = Some 1 \<and> context_depth s2 c = Some 1"
  using ew_call_begin_cases [OF assms(1)] assms(2) ew_call_begin_widget [OF assms(1), of f]
    ew_call_end_depth [of env ext "caller_pushes s1 c f" i s2]
    ew_call_cancel_depth [of "caller_pushes s1 c f" i s2]
  by auto

text \<open>
  Claim C1. For every widget index, Normal or Stillborn, and for the plugin-side and the
  event-watcher-side bridge: when \<open>call_begin\<close> returns an interpreter, the caller then
  changes its stack in any way, and \<open>call_end\<close> or \<open>call_cancel\<close> returns, the depth of
  that interpreter's stack is 1 afterwards, as it was before \<open>call_begin\<close> (only the error
  handler). A call that does not return has ended the process. They do return:
  \<open>call_begin\<close> whenever the interpreter it is to hand out exists with depth 1,
  \<open>call_cancel\<close> always after it, and \<open>call_end\<close> when the caller left the callback and
  one argument (depth 3), the script does not exit the process and the bar driver reports
  no fatal error. (The plugin-side \<open>call_begin\<close> does not return for a Stillborn widget,
  whose interpreter is \<open>NULL\<close>; the host starts no thread for it.)
\<close>

theorem call_pairs_balanced:
  "(\<forall>c s1 s2.
      plugin_call_begin s i = Inr (c, s1)
      \<and> (plugin_call_end env ext (caller_pushes s1 c f) i = Inr s2
         \<or> plugin_call_cancel (caller_pushes s1 c f) i = Inr s2) \<longrightarrow>
      context_depth s c = Some 1 \<and> context_depth s2 c = Some 1)
   \<and> (\<forall>c s1 s2.
      ew_call_begin s i = Inr (c, s1)
      \<and> (ew_call_end env ext (caller_pushes s1 c f) i = Inr s2
         \<or> ew_call_cancel (caller_pushes s1 c f) i = Inr s2) \<longrightarrow>
      context_depth s c = Some 1 \<and> context_depth s2 c = Some 1)
   \<and> (i < length (widgets s) \<and> context_depth s (Ctx_widget i) = Some 1 \<longrightarrow>
        (\<exists>s1. plugin_call_begin s i = Inr (Ctx_widget i, s1)))
   \<and> (i < length (widgets s)
       \<and> context_depth s (widget_event_lua_state i (widgets s ! i)) = Some 1 \<longrightarrow>
        (\<exists>s1. ew_call_begin s i = Inr (widget_event_lua_state i (widgets s ! i), s1)))
   \<and> (\<forall>c s1. plugin_call_begin s i = Inr (c, s1) \<longrightarrow>
        (\<exists>s2. plugin_call_cancel (caller_pushes s1 c f) i = Inr s2)
        \<and> (context_depth (caller_pushes s1 c f) c = Some 3
           \<and> returns_to_host env (ext_call ext)
           \<and> ext_set_ret ext \<noteq> LUASTATUS_ERR \<and> ext_set_error_ret ext \<noteq> LUASTATUS_ERR \<longrightarrow>
           (\<exists>s2. plugin_call_end env ext (caller_pushes s1 c f) i = Inr s2)))
   \<and> (\<forall>c s1. ew_call_begin s i = Inr (c, s1) \<longrightarrow>
        (\<exists>s2. ew_call_cancel (caller_pushes s1 c f) i = Inr s2)
        \<and> (context_depth (caller_pushes s1 c f) c = Some 3
           \<and> returns_to_host env (ext_call ext)
           \<and> ext_set_error_ret ext \<noteq> LUASTATUS_ERR \<longrightarrow>
           (\<exists>s2. ew_call_end env ext (caller_pushes s1 c f) i = Inr s2)))"
  using plugin_pair_balanced [of s i _ _ env ext f] ew_pair_balanced [of s i _ _ env ext f]
    plugin_call_begin_returns [of i s] ew_call_begin_returns [of i s]
    plugin_call_cancel_returns [of s i _ _ f] ew_call_cancel_returns [of s i _ _ f]
    plugin_call_end_returns [of s i _ _ f env ext] ew_call_end_returns [of s i _ _ f env ext]
  by (intro conjI allI impI) blast+

lemma caller_pushes_one:
  assumes "context_depth s c = Some n"
  shows "context_depth (caller_pushes s c (\<lambda>st. st @ [v])) c = Some (Suc n)"
proof -
  from assms have g: "get_context s c \<noteq> None" by (auto simp: context_depth_def)
  show ?thesis
    using caller_pushes_depth [OF g, of "\<lambda>st. st @ [v]"] assms
    by (auto simp: context_depth_def lua_gettop_def)
qed

theorem call_pairs_balanced_witness:
  "\<exists>s1 s2 s1' s2'.
     plugin_call_begin example_state 0 = Inr (Ctx_widget 0, s1)
     \<and> plugin_call_end example_lua_env example_bridge_ext
          (caller_pushes s1 (Ctx_widget 0) (\<lambda>st. st @ [LStr ''data''])) 0 = Inr s2
     \<and> context_depth example_state (Ctx_widget 0) = Some 1
     \<and> context_depth s2 (Ctx_widget 0) = Some 1
     \<and> ew_call_begin example_state 1 = Inr (Ctx_sepstate, s1')
     \<and> ew_call_end example_lua_env example_bridge_ext
          (caller_pushes s1' Ctx_sepstate (\<lambda>st. st @ [LStr ''data''])) 1 = Inr s2'
     \<and> context_depth example_state Ctx_sepstate = Some 1
     \<and> context_depth s2' Ctx_sepstate = Some 1"
proof -
  let ?f = "\<lambda>st. st @ [LStr ''data'']"
  note P = call_pairs_balanced [of example_state 0 example_lua_env example_bridge_ext ?f]
  note E = call_pairs_balanced [of example_state 1 example_lua_env example_bridge_ext ?f]
  have x: "returns_to_host example_lua_env (ext_call example_bridge_ext)"
    "ext_set_ret example_bridge_ext \<noteq> LUASTATUS_ERR"
    "ext_set_error_ret example_bridge_ext \<noteq> LUASTATUS_ERR"
    by (simp_all add: example_bridge_ext_def)
  have p0: "0 < length (widgets example_state)"
    "context_depth example_state (Ctx_widget 0) = Some 1"
    by (simp_all add: example_state_def context_depth_def lua_gettop_def example_lua_state_def)
  with P obtain s1 where b: "plugin_call_begin example_state 0 = Inr (Ctx_widget 0, s1)"
    by blast
  have "context_depth s1 (Ctx_widget 0) = Some 2"
    using plugin_call_begin_cases [OF b] by simp
  then have "context_depth (caller_pushes s1 (Ctx_widget 0) ?f) (Ctx_widget 0) = Some 3"
    using caller_pushes_one [of s1 "Ctx_widget 0" 2] by simp
  with P b x obtain s2 where
    e: "plugin_call_end example_lua_env example_bridge_ext
          (caller_pushes s1 (Ctx_widget 0) ?f) 0 = Inr s2"
    by blast
  from P b e have d: "context_depth s2 (Ctx_widget 0) = Some 1"
    by blast
  have w: "widget_event_lua_state 1 (widgets example_state ! 1) = Ctx_sepstate"
    by (simp add: example_state_def widget_event_lua_state_def)
  have q0: "1 < length (widgets example_state)"
    "context_depth example_state Ctx_sepstate = Some 1"
    by (simp_all add: example_state_def context_depth_def lua_gettop_def example_lua_state_def)
  with E w obtain s1' where b': "ew_call_begin example_state 1 = Inr (Ctx_sepstate, s1')"
    by auto
  have "context_depth s1' Ctx_sepstate = Some 2"
    using ew_call_begin_cases [OF b'] by simp
  then have "context_depth (caller_pushes s1' Ctx_sepstate ?f) Ctx_sepstate = Some 3"
    using caller_pushes_one [of s1' Ctx_sepstate 2] by simp
  with E b' x obtain s2' where
    e': "ew_call_end example_lua_env example_bridge_ext
          (caller_pushes s1' Ctx_sepstate ?f) 1 = Inr s2'"
    by blast
  from E b' e' have d': "context_depth s2' Ctx_sepstate = Some 1"
    by blast
  show ?thesis using b e p0(2) d b' e' q0(2) d' by blast
qed


lemma plugin_call_end_success:
  assumes "i < length (widgets s)" and "L (widgets s ! i) = Some ls"
    and "stack ls = [h, cb, d]"
    and "run_call env s (ext_call ext) = Inr (Inr vs)"
  shows "result_trace (plugin_call_end env ext s i) =
       trace s @ [Ev_pcall cb [d], Ev_lock Mtx_B, Ev_set i [h, hd (adjust_results 1 vs)]]
       @ (case ext_set_ret ext of
            LUASTATUS_ERR \<Rightarrow> [Ev_fflush]
          | LUASTATUS_NONFATAL_ERR \<Rightarrow>
              Ev_set_error i #
                (if ext_set_error_ret ext = LUASTATUS_ERR then [Ev_fflush]
                 else [Ev_unlock Mtx_B, Ev_unlock (Mtx_L i)])
          | _ \<Rightarrow> [Ev_unlock Mtx_B, Ev_unlock (Mtx_L i)])"
    and "result_halt (plugin_call_end env ext s i) =
       (if ext_set_ret ext = LUASTATUS_ERR
           \<or> ext_set_ret ext = LUASTATUS_NONFATAL_ERR \<and> ext_set_error_ret ext = LUASTATUS_ERR
        then Some (Fatal_exit EXIT_FAILURE) else None)"
proof -
  have r: "run_call env (emit s [Ev_pcall cb [d]]) (ext_call ext) = Inr (Inr vs)"
    using run_call_state [OF assms(4)] .
  have a: "adjust_results 1 vs = [hd (adjust_results 1 vs)]"
    by (cases vs) (simp_all add: adjust_results_def)
  have d: "do_lua_call env s ls 1 1 (ext_call ext) =
      Inr (True, ls\<lparr>stack := [h, hd (adjust_results 1 vs)]\<rparr>, emit s [Ev_pcall cb [d]])"
    using assms(3) r a
    by (simp add: do_lua_call_def lua_pcall_def check_lua_call_def Let_def)
  show "result_trace (plugin_call_end env ext s i) =
       trace s @ [Ev_pcall cb [d], Ev_lock Mtx_B, Ev_set i [h, hd (adjust_results 1 vs)]]
       @ (case ext_set_ret ext of
            LUASTATUS_ERR \<Rightarrow> [Ev_fflush]
          | LUASTATUS_NONFATAL_ERR \<Rightarrow>
              Ev_set_error i #
                (if ext_set_error_ret ext = LUASTATUS_ERR then [Ev_fflush]
                 else [Ev_unlock Mtx_B, Ev_unlock (Mtx_L i)])
          | _ \<Rightarrow> [Ev_unlock Mtx_B, Ev_unlock (Mtx_L i)])"
    using assms(1-3) d
    by (cases "ext_set_ret ext")
       (simp_all add: plugin_call_end_def lua_gettop_def Let_def result_trace_def
          set_error_unlocked_def fatal_error_reported_def)
  show "result_halt (plugin_call_end env ext s i) =
       (if ext_set_ret ext = LUASTATUS_ERR
           \<or> ext_set_ret ext = LUASTATUS_NONFATAL_ERR \<and> ext_set_error_ret ext = LUASTATUS_ERR
        then Some (Fatal_exit EXIT_FAILURE) else None)"
    using assms(1-3) d
    by (cases "ext_set_ret ext")
       (simp_all add: plugin_call_end_def lua_gettop_def Let_def result_halt_def
          set_error_unlocked_def fatal_error_reported_def)
qed

lemma plugin_call_end_failure:
  assumes "i < length (widgets s)" and "L (widgets s ! i) = Some ls"
    and "stack ls = [h, cb, d]"
    and "run_call env s (ext_call ext) = Inr (Inl (e, v))"
  shows "result_trace (plugin_call_end env ext s i) =
       trace s @ [Ev_pcall cb [d], Ev_lock Mtx_B, Ev_set_error i]
       @ (if ext_set_error_ret ext = LUASTATUS_ERR then [Ev_fflush]
          else [Ev_unlock Mtx_B, Ev_unlock (Mtx_L i)])"
    and "result_halt (plugin_call_end env ext s i) =
       (if ext_set_error_ret ext = LUASTATUS_ERR then Some (Fatal_exit EXIT_FAILURE) else None)"
proof -
  have r: "run_call env (emit s [Ev_pcall cb [d]]) (ext_call ext) = Inr (Inl (e, v))"
    using run_call_state [OF assms(4)] .
  have d: "do_lua_call env s ls 1 1 (ext_call ext) =
      Inr (False, ls\<lparr>stack := [h]\<rparr>, emit s [Ev_pcall cb [d]])"
    using assms(3) r
    by (simp add: do_lua_call_def lua_pcall_def check_lua_call_def lua_pop_def Let_def)
  show "result_trace (plugin_call_end env ext s i) =
       trace s @ [Ev_pcall cb [d], Ev_lock Mtx_B, Ev_set_error i]
       @ (if ext_set_error_ret ext = LUASTATUS_ERR then [Ev_fflush]
          else [Ev_unlock Mtx_B, Ev_unlock (Mtx_L i)])"
    using assms(1-3) d
    by (simp add: plugin_call_end_def lua_gettop_def Let_def result_trace_def
          set_error_unlocked_def fatal_error_reported_def)
  show "result_halt (plugin_call_end env ext s i) =
       (if ext_set_error_ret ext = LUASTATUS_ERR then Some (Fatal_exit EXIT_FAILURE) else None)"
    using assms(1-3) d
    by (simp add: plugin_call_end_def lua_gettop_def Let_def result_halt_def
          set_error_unlocked_def fatal_error_reported_def)
qed

text \<open>
  Claim C2. \<open>plugin_call_end\<close> for the widget with index \<open>i\<close>, entered with the error
  handler, the callback and one argument on the stack, makes the protected call and takes
  the bar driver's lock. If the call succeeded, the driver's \<open>set\<close> is called for index
  \<open>i\<close> with the returned value on the stack; a non-fatal error of \<open>set\<close> is followed by
  \<open>set_error\<close> for the same index. If the call failed, \<open>set_error\<close> is called for index
  \<open>i\<close> and \<open>set\<close> is not. When \<open>set\<close> or \<open>set_error\<close> returns the fatal code, the next step
  is the flush and the process exits with \<open>EXIT_FAILURE\<close>; otherwise the bar driver's lock
  and then the widget's lock are released and the call returns.
\<close>

theorem plugin_call_end_delivery:
  assumes "i < length (widgets s)" and "L (widgets s ! i) = Some ls"
    and "stack ls = [h, cb, d]"
  shows "(\<forall>vs. run_call env s (ext_call ext) = Inr (Inr vs) \<longrightarrow>
            result_trace (plugin_call_end env ext s i) =
              trace s @ [Ev_pcall cb [d], Ev_lock Mtx_B, Ev_set i [h, hd (adjust_results 1 vs)]]
              @ (case ext_set_ret ext of
                   LUASTATUS_ERR \<Rightarrow> [Ev_fflush]
                 | LUASTATUS_NONFATAL_ERR \<Rightarrow>
                     Ev_set_error i #
                       (if ext_set_error_ret ext = LUASTATUS_ERR then [Ev_fflush]
                        else [Ev_unlock Mtx_B, Ev_unlock (Mtx_L i)])
                 | _ \<Rightarrow> [Ev_unlock Mtx_B, Ev_unlock (Mtx_L i)])
          \<and> result_halt (plugin_call_end env ext s i) =
              (if ext_set_ret ext = LUASTATUS_ERR
                  \<or> ext_set_ret ext = LUASTATUS_NONFATAL_ERR
                    \<and> ext_set_error_ret ext = LUASTATUS_ERR
               then Some (Fatal_exit EXIT_FAILURE) else None))
       \<and> (\<forall>e v. run_call env s (ext_call ext) = Inr (Inl (e, v)) \<longrightarrow>
            result_trace (plugin_call_end env ext s i) =
              trace s @ [Ev_pcall cb [d], Ev_lock Mtx_B, Ev_set_error i]
              @ (if ext_set_error_ret ext = LUASTATUS_ERR then [Ev_fflush]
                 else [Ev_unlock Mtx_B, Ev_unlock (Mtx_L i)])
          \<and> result_halt (plugin_call_end env ext s i) =
              (if ext_set_error_ret ext = LUASTATUS_ERR then Some (Fatal_exit EXIT_FAILURE)
               else None))"
  using plugin_call_end_success [OF assms] plugin_call_end_failure [OF assms]
  by blast

theorem plugin_call_end_delivery_witness:
  "result_trace (plugin_call_end example_lua_env example_bridge_ext example_state_in_call 0) =
     [Ev_pcall (LFunction 7) [LStr ''data''], Ev_lock Mtx_B,
      Ev_set 0 [LCFunction ''l_error_handler'', LStr ''ok''],
      Ev_unlock Mtx_B, Ev_unlock (Mtx_L 0)]
   \<and> result_trace (plugin_call_end example_lua_env
        (example_bridge_ext\<lparr>ext_call := Raises LUA_ERRRUN (LStr ''boom'')\<rparr>)
        example_state_in_call 0) =
     [Ev_pcall (LFunction 7) [LStr ''data''], Ev_lock Mtx_B, Ev_set_error 0,
      Ev_unlock Mtx_B, Ev_unlock (Mtx_L 0)]
   \<and> result_trace (plugin_call_end example_lua_env
        (example_bridge_ext\<lparr>ext_set_ret := LUASTATUS_ERR\<rparr>) example_state_in_call 0) =
     [Ev_pcall (LFunction 7) [LStr ''data''], Ev_lock Mtx_B,
      Ev_set 0 [LCFunction ''l_error_handler'', LStr ''ok''], Ev_fflush]
   \<and> result_halt (plugin_call_end example_lua_env
        (example_bridge_ext\<lparr>ext_set_ret := LUASTATUS_ERR\<rparr>) example_state_in_call 0) =
     Some (Fatal_exit EXIT_FAILURE)"
proof -
  have i: "0 < length (widgets example_state_in_call)"
    by (simp add: example_state_in_call_def example_state_def)
  have l: "L (widgets example_state_in_call ! 0) =
      Some (example_lua_state\<lparr>stack := [LCFunction ''l_error_handler'', LFunction 7, LStr ''data'']\<rparr>)"
    by (simp add: example_state_in_call_def example_state_def)
  have st: "stack (example_lua_state\<lparr>stack := [LCFunction ''l_error_handler'', LFunction 7, LStr ''data'']\<rparr>)
      = [LCFunction ''l_error_handler'', LFunction 7, LStr ''data'']"
    by simp
  have t: "trace example_state_in_call = []"
    by (simp add: example_state_in_call_def example_state_def gstate_init_def)
  note T = plugin_call_end_delivery [OF i l st, of example_lua_env]
  have 1: "run_call example_lua_env example_state_in_call (ext_call example_bridge_ext)
      = Inr (Inr [LStr ''ok''])"
    by (simp add: example_bridge_ext_def)
  have 2: "run_call example_lua_env example_state_in_call
      (ext_call (example_bridge_ext\<lparr>ext_call := Raises LUA_ERRRUN (LStr ''boom'')\<rparr>))
      = Inr (Inl (LUA_ERRRUN, LStr ''boom''))"
    by simp
  have 3: "run_call example_lua_env example_state_in_call
      (ext_call (example_bridge_ext\<lparr>ext_set_ret := LUASTATUS_ERR\<rparr>))
      = Inr (Inr [LStr ''ok''])"
    by (simp add: example_bridge_ext_def)
  show ?thesis
    using T [of example_bridge_ext] 1
      T [of "example_bridge_ext\<lparr>ext_call := Raises LUA_ERRRUN (LStr ''boom'')\<rparr>"] 2
      T [of "example_bridge_ext\<lparr>ext_set_ret := LUASTATUS_ERR\<rparr>"] 3 t
    by (simp add: example_bridge_ext_def adjust_results_def)
qed

section \<open>Properties of Stillborn widgets\<close>

lemma lua_pop_push [simp]: "lua_pop (lua_push ls v) (Suc 0) = ls"
  by (simp add: lua_pop_def lua_push_def)

lemma inject_libs_id [simp]: "inject_libs ls = ls"
  by (simp add: inject_libs_def Let_def)

lemma sepstate_maybe_init_cases:
  assumes "sepstate_maybe_init ok s = Inr s1"
  shows "(\<exists>sl. sepstate_L s1 = Some sl) \<and> (sep_ok s \<longrightarrow> sep_ok s1)
    \<and> widgets s1 = widgets s \<and> trace s1 = trace s"
  using assms
  by (auto simp: sepstate_maybe_init_def xnew_lua_state_def sep_ok_def lua_gettop_def
      lua_push_def split: option.splits if_splits)

lemma sepstate_emit [simp]: "sepstate_L (emit s es) = sepstate_L s"
  by (simp add: emit_def)

lemma sep_ok_emit [simp]: "sep_ok (emit s es) = sep_ok s"
  by (simp add: sep_ok_def)

lemma plugin_load_sepstate:
  "plugin_load cfg dl s p fname nm = (r, p', s') \<Longrightarrow> sepstate_L s' = sepstate_L s"
  by (auto simp: plugin_load_cases split: option.splits if_splits)

lemma plugin_load_by_name_sepstate:
  "plugin_load_by_name cfg dl s p nm = (r, p', s') \<Longrightarrow> sepstate_L s' = sepstate_L s"
  by (auto simp: plugin_load_by_name_def Let_def dest: plugin_load_sepstate split: if_splits)

lemma plugin_unload_sepstate [simp]: "sepstate_L (plugin_unload s p) = sepstate_L s"
  by (simp add: plugin_unload_def dlclose_def split: option.splits)

lemma inspect_plugin_sepstate:
  "widget_init_inspect_plugin cfg dl env s w ls = (r, w', ls', s') \<Longrightarrow>
   sepstate_L s' = sepstate_L s"
  by (auto simp: widget_init_inspect_plugin_def Let_def dest: plugin_load_by_name_sepstate
      split: if_splits prod.splits)

lemma luaL_ref_depth: "luaL_ref ls = (r, ls') \<Longrightarrow> lua_gettop ls' = lua_gettop ls - 1"
  by (auto simp: luaL_ref_def Let_def lua_pop_def lua_gettop_def split: if_splits)

lemma luaL_load_depth: "luaL_load ls x = (r, ls') \<Longrightarrow> lua_gettop ls' = Suc (lua_gettop ls)"
  by (auto simp: luaL_load_def lua_push_def lua_gettop_def split: sum.splits)

lemma check_lua_call_depth:
  "check_lua_call ls ret = (r, ls') \<Longrightarrow>
   lua_gettop ls' = (if r then lua_gettop ls else lua_gettop ls - 1) \<and> (r \<longleftrightarrow> ret = None)"
  by (auto simp: check_lua_call_def lua_pop_def lua_gettop_def split: option.splits)

lemma inspect_event_sep_ok:
  assumes "widget_init_inspect_event ext s w ls fname = Inr (r, w', ls', s')" and "sep_ok s"
  shows "sep_ok s'"
proof -
  let ?t = "lua_type_of (lua_top (lua_getfield_top ls ''event''))"
  consider (a) "?t = LUA_TNIL \<or> ?t = LUA_TFUNCTION"
    | (b) "?t \<noteq> LUA_TNIL" "?t \<noteq> LUA_TFUNCTION" "?t = LUA_TSTRING"
    | (c) "?t \<noteq> LUA_TNIL" "?t \<noteq> LUA_TFUNCTION" "?t \<noteq> LUA_TSTRING"
    by blast
  then show ?thesis
  proof cases
    case a
    with assms show ?thesis
      by (auto simp: widget_init_inspect_event_def Let_def split: prod.splits)
  next
    case b
    with assms(1) obtain s1 sl where m: "sepstate_maybe_init (we_sep_newstate_ok ext) s = Inr s1"
      and sl: "sepstate_L s1 = Some sl"
      by (auto simp: widget_init_inspect_event_def Let_def split: sum.splits option.splits)
    have d: "lua_gettop sl = 1"
      using sepstate_maybe_init_cases [OF m] assms(2) sl by (simp add: sep_ok_def)
    obtain ret sl1 where l: "luaL_load sl (we_loadbuffer ext) = (ret, sl1)"
      by (cases "luaL_load sl (we_loadbuffer ext)")
    obtain q sl2 where c: "check_lua_call sl1 ret = (q, sl2)"
      by (cases "check_lua_call sl1 ret")
    obtain ref sl3 where f: "luaL_ref sl2 = (ref, sl3)"
      by (cases "luaL_ref sl2")
    have d2: "lua_gettop sl2 = (if q then 2 else 1)"
      using luaL_load_depth [OF l] check_lua_call_depth [OF c] d by simp
    have d3: "q \<Longrightarrow> lua_gettop sl3 = 1"
      using luaL_ref_depth [OF f] d2 by simp
    show ?thesis
      using assms(1) b m sl l c f d2 d3
      by (auto simp: widget_init_inspect_event_def Let_def sep_ok_def split: if_splits)
  next
    case c
    with assms show ?thesis
      by (auto simp: widget_init_inspect_event_def Let_def)
  qed
qed

lemma do_lua_call_sepstate:
  "do_lua_call env s ls nargs nresults oc = Inr (r, ls1, s1) \<Longrightarrow> sepstate_L s1 = sepstate_L s"
  using do_lua_call_cases [of env s ls nargs nresults oc r ls1 s1] by simp

lemma plugin_load_widgets:
  "plugin_load cfg dl s p fname nm = (r, p', s') \<Longrightarrow> widgets s' = widgets s"
  by (auto simp: plugin_load_cases split: option.splits if_splits)

lemma inspect_plugin_widgets:
  "widget_init_inspect_plugin cfg dl env s w ls = (r, w', ls', s') \<Longrightarrow>
   widgets s' = widgets s"
  by (auto simp: widget_init_inspect_plugin_def plugin_load_by_name_def Let_def
      dest: plugin_load_widgets split: if_splits prod.splits)

lemma plugin_unload_widgets [simp]: "widgets (plugin_unload s p) = widgets s"
  by (simp add: plugin_unload_def dlclose_def split: option.splits)

lemma inspect_event_widgets:
  "widget_init_inspect_event ext s w ls fname = Inr (r, w', ls', s') \<Longrightarrow>
   widgets s' = widgets s"
  by (auto simp: widget_init_inspect_event_def Let_def
      dest: sepstate_maybe_init_cases split: if_splits prod.splits sum.splits option.splits)


lemma sep_ok_cong: "sepstate_L s' = sepstate_L s \<Longrightarrow> sep_ok s' = sep_ok s"
  by (simp add: sep_ok_def)

lemma pres_refl [simp]: "pres s s"
  by (simp add: pres_def)

lemma pres_trans: "pres s s1 \<Longrightarrow> pres s1 s2 \<Longrightarrow> pres s s2"
  by (simp add: pres_def)

lemma pres_same: "widgets s' = widgets s \<Longrightarrow> sepstate_L s' = sepstate_L s \<Longrightarrow> pres s s'"
  by (simp add: pres_def sep_ok_def)

lemma do_lua_call_pres:
  "do_lua_call env s ls nargs nresults oc = Inr (r, ls1, s1) \<Longrightarrow> pres s s1"
  using do_lua_call_cases [of env s ls nargs nresults oc r ls1 s1] by (simp add: pres_same)

lemma inspect_plugin_pres:
  "widget_init_inspect_plugin cfg dl env s w ls = (r, w', ls', s') \<Longrightarrow> pres s s'"
  by (auto dest: inspect_plugin_widgets inspect_plugin_sepstate intro: pres_same)

lemma inspect_event_some:
  "widget_init_inspect_event ext s w ls fname = Inr (r, w', ls', s') \<Longrightarrow>
   sepstate_L s \<noteq> None \<Longrightarrow> sepstate_L s' \<noteq> None"
  by (auto simp: widget_init_inspect_event_def Let_def
      dest: sepstate_maybe_init_cases split: if_splits prod.splits sum.splits option.splits)

lemma inspect_event_pres:
  "widget_init_inspect_event ext s w ls fname = Inr (r, w', ls', s') \<Longrightarrow> pres s s'"
  by (auto simp: pres_def dest: inspect_event_widgets inspect_event_sep_ok inspect_event_some)

lemma lua_close_pres: "lua_close env s fin = Inr s' \<Longrightarrow> pres s s'"
  by (auto simp: lua_close_def Let_def pres_def sep_ok_def emit_def split: sum.splits)

lemma widget_init_error_pres:
  assumes "widget_init_error env ext s w ls b = Inr (r, w', s')"
  shows "\<not> r \<and> pres s s'"
proof -
  from assms obtain s1 where c: "lua_close env s (we_finalizers ext) = Inr s1"
    and r: "\<not> r" and s': "s' = (if b then plugin_unload s1 (plugin w) else s1)"
    by (auto simp: widget_init_error_def split: sum.splits)
  have "pres s1 s'" unfolding s' by (cases b) (auto intro: pres_same)
  with lua_close_pres [OF c] r show ?thesis using pres_trans by blast
qed

lemma sep_ok_map_st [simp]: "sep_ok (s\<lparr>map_st := m\<rparr>) = sep_ok s"
  by (simp add: sep_ok_def)

lemma widget_init_cases:
  assumes "widget_init cfg dl env ext s w fname = Inr (r, w', s')"
  shows "pres s s' \<and> (r \<longrightarrow> L w' \<noteq> None)"
  using assms
  unfolding widget_init_def Let_def
  by (auto split: sum.splits prod.splits if_splits
      dest!: widget_init_error_pres inspect_event_pres inspect_plugin_pres do_lua_call_pres
      simp: pres_def)

lemma widget_init_stillborn_cases:
  assumes "widget_init_stillborn ok s w = Inr (w', s')"
  shows "L w' = None \<and> lref_event w' = LUA_REFNIL \<and> sepstate_event w'
    \<and> (\<exists>sl. sepstate_L s' = Some sl) \<and> pres s s'
    \<and> w' = w\<lparr>L := None, lref_event := LUA_REFNIL, sepstate_event := True\<rparr>"
  using assms
  by (auto simp: widget_init_stillborn_def pres_def dest: sepstate_maybe_init_cases
      split: sum.splits)

lemma stillborn_inv_step:
  assumes "stillborn_inv i s" and "pres s s'" and "i < length (widgets s)"
    and "L w = None \<longrightarrow> lref_event w = LUA_REFNIL \<and> sepstate_event w \<and> sepstate_L s' \<noteq> None"
  shows "stillborn_inv (Suc i) (s'\<lparr>widgets := (widgets s')[i := w]\<rparr>)"
  using assms
  by (auto simp: stillborn_inv_def pres_def sep_ok_def nth_list_update less_Suc_eq)

lemma widgets_init_loop_inv:
  "widgets_init_loop cfg dl env s i files = Inr s' \<Longrightarrow> stillborn_inv i s \<Longrightarrow>
   i + length files = length (widgets s) \<Longrightarrow>
   stillborn_inv (length (widgets s)) s' \<and> length (widgets s') = length (widgets s)"
proof (induction files arbitrary: s i)
  case Nil
  then show ?case by simp
next
  case (Cons f files)
  obtain fname ext where f: "f = (fname, ext)" by (cases f)
  from Cons.prems(1) f obtain r w s1 where
    wi: "widget_init cfg dl env ext s (widgets s ! i) fname = Inr (r, w, s1)"
    by (auto split: sum.splits)
  have p1: "pres s s1" and n: "r \<longrightarrow> L w \<noteq> None"
    using widget_init_cases [OF wi] by simp_all
  have i: "i < length (widgets s)" using Cons.prems(3) by simp
  show ?case
  proof (cases r)
    case True
    let ?s2 = "s1\<lparr>widgets := (widgets s1)[i := w]\<rparr>"
    from Cons.prems(1) f wi True
    have l: "widgets_init_loop cfg dl env ?s2 (Suc i) files = Inr s'" by simp
    have "stillborn_inv (Suc i) ?s2"
      using stillborn_inv_step [OF Cons.prems(2) p1 i, of w] n True by simp
    moreover have "Suc i + length files = length (widgets ?s2)"
      using Cons.prems(3) p1 by (simp add: pres_def)
    ultimately show ?thesis
      using Cons.IH [OF l] p1 by (simp add: pres_def)
  next
    case False
    from Cons.prems(1) f wi False obtain w' s2 where
      sb: "widget_init_stillborn (we_sep_newstate_ok ext) s1 w = Inr (w', s2)"
      and l: "widgets_init_loop cfg dl env (s2\<lparr>widgets := (widgets s2)[i := w']\<rparr>) (Suc i) files
            = Inr s'"
      by (auto split: sum.splits)
    let ?s3 = "s2\<lparr>widgets := (widgets s2)[i := w']\<rparr>"
    have p2: "pres s s2"
      using widget_init_stillborn_cases [OF sb] p1 pres_trans by blast
    have "stillborn_inv (Suc i) ?s3"
      using stillborn_inv_step [OF Cons.prems(2) p2 i, of w']
        widget_init_stillborn_cases [OF sb] by auto
    moreover have "Suc i + length files = length (widgets ?s3)"
      using Cons.prems(3) p2 by (simp add: pres_def)
    ultimately show ?thesis
      using Cons.IH [OF l] p2 by (simp add: pres_def)
  qed
qed

lemma widgets_init_inv:
  assumes "widgets_init cfg dl env s0 raw files = Inr s" and "sepstate_L s0 = None"
  shows "stillborn_inv (length files) s \<and> length (widgets s) = length files"
proof -
  let ?s = "s0\<lparr>widgets := map raw [0 ..< length files]\<rparr>"
  have "stillborn_inv 0 ?s" using assms(2) by (simp add: stillborn_inv_def sep_ok_def)
  moreover have "0 + length files = length (widgets ?s)" by simp
  ultimately show ?thesis
    using widgets_init_loop_inv [of cfg dl env ?s 0 files s] assms(1)
    by (simp add: widgets_init_def)
qed

lemma stillborn_delivery:
  assumes "i < length (widgets s)" and "sepstate_event (widgets s ! i)"
    and "lref_event (widgets s ! i) = LUA_REFNIL"
    and "sepstate_L s = Some sl" and "lua_gettop sl = 1"
  shows "\<exists>s1. ew_call_begin s i = Inr (Ctx_sepstate, s1)
      \<and> ew_call_end env ext (caller_pushes s1 Ctx_sepstate (\<lambda>st. st @ [v])) i =
          Inr (emit s [Ev_lock Mtx_sep, Ev_unlock Mtx_sep])"
proof -
  let ?s1 = "(emit s [Ev_lock Mtx_sep])
      \<lparr>sepstate_L := Some (sl\<lparr>stack := stack sl @ [registry sl LUA_REFNIL]\<rparr>)\<rparr>"
  have b: "ew_call_begin s i = Inr (Ctx_sepstate, ?s1)"
    using assms
    by (simp add: ew_call_begin_def widget_event_lua_state_def widget_event_L_mtx_def Let_def
        lua_rawgeti_registry_def lua_push_def)
  let ?s2 = "caller_pushes ?s1 Ctx_sepstate (\<lambda>st. st @ [v])"
  have c: "?s2 = (emit s [Ev_lock Mtx_sep])
      \<lparr>sepstate_L := Some (sl\<lparr>stack := stack sl @ [registry sl LUA_REFNIL, v]\<rparr>)\<rparr>"
    by (simp add: caller_pushes_def)
  have p: "lua_pop (sl\<lparr>stack := stack sl @ [registry sl LUA_REFNIL, v]\<rparr>) 2 = sl"
    using assms(5) by (simp add: lua_pop_def lua_gettop_def)
  have "ew_call_end env ext ?s2 i =
      Inr (emit ((emit s [Ev_lock Mtx_sep])\<lparr>sepstate_L := Some sl\<rparr>) [Ev_unlock Mtx_sep])"
    unfolding c using assms p
    by (simp add: ew_call_end_def widget_event_lua_state_def widget_event_L_mtx_def Let_def
        lua_gettop_def emit_def)
  moreover have "emit ((emit s [Ev_lock Mtx_sep])\<lparr>sepstate_L := Some sl\<rparr>) [Ev_unlock Mtx_sep]
      = emit s [Ev_lock Mtx_sep, Ev_unlock Mtx_sep]"
    using assms(4) by (simp add: emit_def)
  ultimately show ?thesis using b by simp
qed

text \<open>
  Claim C3. Whatever a failed \<open>widget_init\<close> left in the widget, \<open>widget_init_stillborn\<close>
  makes its interpreter \<open>NULL\<close>, its event reference \<open>LUA_REFNIL\<close> and its
  \<open>sepstate_event\<close> true, and the separate interpreter exists afterwards. So after
  \<open>widgets_init\<close> every Stillborn widget has these three fields, and the separate
  interpreter exists with only the error handler on its stack. For an event addressed to
  such a widget, \<open>ew_call_begin\<close> returns the separate interpreter, and after the event
  watcher has pushed the event object \<open>ew_call_end\<close> returns with the state as it was
  before \<open>ew_call_begin\<close>, but for the locking and unlocking of the separate
  interpreter's mutex in the trace: no Lua function is called, neither \<open>set\<close> nor
  \<open>set_error\<close> of the bar driver is called, the event object is gone from the stack. The
  other fields of the widget, and so the step at which its initialisation failed, do not
  enter.
\<close>

theorem stillborn_event_delivery:
  "(\<forall>w' s'. widget_init_stillborn ok s w = Inr (w', s') \<longrightarrow>
       L w' = None \<and> lref_event w' = LUA_REFNIL \<and> sepstate_event w'
       \<and> widget_is_stillborn w' \<and> (\<exists>sl. sepstate_L s' = Some sl))
   \<and> (\<forall>s1. sepstate_L s0 = None \<and> widgets_init cfg dl env s0 raw files = Inr s1 \<longrightarrow>
       length (widgets s1) = length files
       \<and> (\<forall>j<length files. widget_is_stillborn (widgets s1 ! j) \<longrightarrow>
             lref_event (widgets s1 ! j) = LUA_REFNIL \<and> sepstate_event (widgets s1 ! j)
             \<and> (\<exists>sl. sepstate_L s1 = Some sl \<and> lua_gettop sl = 1)))
   \<and> (\<forall>sl. i < length (widgets s2) \<and> widget_is_stillborn (widgets s2 ! i)
          \<and> sepstate_event (widgets s2 ! i) \<and> lref_event (widgets s2 ! i) = LUA_REFNIL
          \<and> sepstate_L s2 = Some sl \<and> lua_gettop sl = 1 \<longrightarrow>
       (\<exists>s3. ew_call_begin s2 i = Inr (Ctx_sepstate, s3)
            \<and> ew_call_end env ext (caller_pushes s3 Ctx_sepstate (\<lambda>st. st @ [v])) i =
                Inr (emit s2 [Ev_lock Mtx_sep, Ev_unlock Mtx_sep])))"
proof -
  have 1: "L w' = None \<and> lref_event w' = LUA_REFNIL \<and> sepstate_event w'
       \<and> widget_is_stillborn w' \<and> (\<exists>sl. sepstate_L s' = Some sl)"
    if "widget_init_stillborn ok s w = Inr (w', s')" for w' s'
    using widget_init_stillborn_cases [OF that] by (simp add: widget_is_stillborn_def)
  have 2: "length (widgets s1) = length files
       \<and> (\<forall>j<length files. widget_is_stillborn (widgets s1 ! j) \<longrightarrow>
             lref_event (widgets s1 ! j) = LUA_REFNIL \<and> sepstate_event (widgets s1 ! j)
             \<and> (\<exists>sl. sepstate_L s1 = Some sl \<and> lua_gettop sl = 1))"
    if "sepstate_L s0 = None \<and> widgets_init cfg dl env s0 raw files = Inr s1" for s1
    using widgets_init_inv [of cfg dl env s0 raw files s1] that
    by (auto simp: stillborn_inv_def widget_is_stillborn_def sep_ok_def)
  have 3: "\<exists>s3. ew_call_begin s2 i = Inr (Ctx_sepstate, s3)
            \<and> ew_call_end env ext (caller_pushes s3 Ctx_sepstate (\<lambda>st. st @ [v])) i =
                Inr (emit s2 [Ev_lock Mtx_sep, Ev_unlock Mtx_sep])"
    if "i < length (widgets s2) \<and> widget_is_stillborn (widgets s2 ! i)
          \<and> sepstate_event (widgets s2 ! i) \<and> lref_event (widgets s2 ! i) = LUA_REFNIL
          \<and> sepstate_L s2 = Some sl \<and> lua_gettop sl = 1" for sl
    using stillborn_delivery [of i s2 sl env ext v] that by simp
  show ?thesis using 1 2 3 by blast
qed

lemma widgets_init_example:
  "\<exists>s1. widgets_init example_config example_dl example_lua_env gstate_init
          (\<lambda>i. example_raw_widget)
          [(''a.lua'', example_widget_nofile), (''b.lua'', example_widget_noplugin)] = Inr s1
      \<and> L (widgets s1 ! 0) = None \<and> L (widgets s1 ! 1) = None
      \<and> handles s1 = []"
  by (simp add: widgets_init_def widget_init_def widget_init_stillborn_def
      sepstate_maybe_init_def xnew_lua_state_def widget_init_error_def lua_close_def
      example_widget_nofile_def example_widget_noplugin_def example_widget_good_def
      gstate_init_def example_raw_widget_def luaL_load_def check_lua_call_def Let_def
      do_lua_call_def lua_pcall_def lua_push_def lua_pop_def lua_top_def lua_gettop_def
      emit_def adjust_results_def widget_init_inspect_plugin_def lua_getfield_top_def
      lua_isstring_def lua_tostring_def plugin_load_by_name_def strchr_def cstring_def
      ASPRINTF_def plugin_load_cases example_dl_def example_config_def upt_rec)

theorem stillborn_event_delivery_witness:
  "\<exists>s1 s3.
     widgets_init example_config example_dl example_lua_env gstate_init
        (\<lambda>i. example_raw_widget)
        [(''a.lua'', example_widget_nofile), (''b.lua'', example_widget_noplugin)] = Inr s1
     \<and> widget_is_stillborn (widgets s1 ! 0) \<and> widget_is_stillborn (widgets s1 ! 1)
     \<and> lref_event (widgets s1 ! 0) = LUA_REFNIL \<and> sepstate_event (widgets s1 ! 0)
     \<and> lref_event (widgets s1 ! 1) = LUA_REFNIL \<and> sepstate_event (widgets s1 ! 1)
     \<and> ew_call_begin s1 1 = Inr (Ctx_sepstate, s3)
     \<and> ew_call_end example_lua_env example_bridge_ext
          (caller_pushes s3 Ctx_sepstate (\<lambda>st. st @ [LStr ''click''])) 1 =
          Inr (emit s1 [Ev_lock Mtx_sep, Ev_unlock Mtx_sep])"
proof -
  let ?files = "[(''a.lua'', example_widget_nofile), (''b.lua'', example_widget_noplugin)]"
  obtain s1 where w: "widgets_init example_config example_dl example_lua_env gstate_init
          (\<lambda>i. example_raw_widget) ?files = Inr s1"
    and l: "L (widgets s1 ! 0) = None" "L (widgets s1 ! 1) = None"
    using widgets_init_example by blast
  have st: "widget_is_stillborn (widgets s1 ! 0)" "widget_is_stillborn (widgets s1 ! 1)"
    using l by (simp_all add: widget_is_stillborn_def)
  have n: "sepstate_L gstate_init = None" by (simp add: gstate_init_def)
  note T = stillborn_event_delivery [where ok = True and s = gstate_init
      and w = example_raw_widget and ?s0.0 = gstate_init and cfg = example_config
      and dl = example_dl and env = example_lua_env and raw = "\<lambda>i. example_raw_widget"
      and files = ?files and i = 1 and ?s2.0 = s1 and ext = example_bridge_ext
      and v = "LStr ''click''"]
  have A: "length (widgets s1) = length ?files
       \<and> (\<forall>j<length ?files. widget_is_stillborn (widgets s1 ! j) \<longrightarrow>
             lref_event (widgets s1 ! j) = LUA_REFNIL \<and> sepstate_event (widgets s1 ! j)
             \<and> (\<exists>sl. sepstate_L s1 = Some sl \<and> lua_gettop sl = 1))"
    using T n w by blast
  have len: "length (widgets s1) = 2" using A by simp
  have B: "j < length ?files \<Longrightarrow> widget_is_stillborn (widgets s1 ! j) \<Longrightarrow>
      lref_event (widgets s1 ! j) = LUA_REFNIL \<and> sepstate_event (widgets s1 ! j)
             \<and> (\<exists>sl. sepstate_L s1 = Some sl \<and> lua_gettop sl = 1)" for j
    using A by blast
  have f0: "lref_event (widgets s1 ! 0) = LUA_REFNIL \<and> sepstate_event (widgets s1 ! 0)"
    using B [of 0] st(1) by simp
  have f1: "lref_event (widgets s1 ! 1) = LUA_REFNIL \<and> sepstate_event (widgets s1 ! 1)
      \<and> (\<exists>sl. sepstate_L s1 = Some sl \<and> lua_gettop sl = 1)"
    using B [of 1] st(2) by simp
  then obtain sl where sl: "sepstate_L s1 = Some sl" "lua_gettop sl = 1" by blast
  have "1 < length (widgets s1) \<and> widget_is_stillborn (widgets s1 ! 1)
          \<and> sepstate_event (widgets s1 ! 1) \<and> lref_event (widgets s1 ! 1) = LUA_REFNIL
          \<and> sepstate_L s1 = Some sl \<and> lua_gettop sl = 1"
    using len st(2) f1 sl by simp
  with T obtain s3 where "ew_call_begin s1 1 = Inr (Ctx_sepstate, s3)"
    "ew_call_end example_lua_env example_bridge_ext
          (caller_pushes s3 Ctx_sepstate (\<lambda>st. st @ [LStr ''click''])) 1 =
          Inr (emit s1 [Ev_lock Mtx_sep, Ev_unlock Mtx_sep])"
    by blast
  with w st f0 f1 show ?thesis by blast
qed

section \<open>Properties of \<open>main\<close>: the exit status\<close>



lemma inner_halt_simps [simp]:
  "inner_halt Aborted" "inner_halt Undefined" "inner_halt Hangs" "inner_halt (Lua_os_exit c)"
  "inner_halt (Fatal_exit c) = (c = EXIT_FAILURE)" "\<not> inner_halt (Main_returned r)"
  by (simp_all add: inner_halt_def)














































lemma barlib_iface_emit [simp]: "barlib_iface (emit s es) = barlib_iface s"
  by (simp add: emit_def)

lemma barlib_iface_put_context [simp]:
  "barlib_iface (put_context s c ls) = barlib_iface s"
  by (cases c) simp_all













lemma exit_codes [simp]: "EXIT_SUCCESS \<noteq> EXIT_FAILURE" "EXIT_FAILURE mod 256 \<noteq> 0"
  "EXIT_SUCCESS mod 256 = 0"
  by (simp_all add: EXIT_SUCCESS_def EXIT_FAILURE_def)











































end
